theory Spec2Isabelle
  imports Complex_Main
begin

section \<open>Python values and string primitives\<close>

text \<open>
  The service of \<^verbatim>\<open>profanity_check.py\<close> passes Python dicts between its methods.
  Dicts that reach a method from outside the code that reads them (detector reports,
  the converted complaint document) are association lists of dynamically typed values,
  read with \<open>dget\<close> as the source reads them with \<^verbatim>\<open>.get(key, default)\<close>.
  Python's \<^verbatim>\<open>int\<close> and \<^verbatim>\<open>float\<close> are both the numbers of \<open>PNum\<close>: floating point
  rounding, infinities and NaN are outside the model. \<open>PDatetime\<close> is a
  \<^verbatim>\<open>datetime.datetime\<close>, kept as the text its \<^verbatim>\<open>isoformat()\<close> gives. A text is a list of
  code points below 256 (Latin-1), which fixes what \<^verbatim>\<open>str.isspace\<close> and \<^verbatim>\<open>str.isupper\<close>
  answer.
\<close>

datatype exn =
    TypeError
  | ZeroDivisionError
  | AttributeError string
  | DatabaseError string

datatype pyval =
    PNone
  | PBool bool
  | PNum real
  | PStr string
  | PList "pyval list"
  | PDict "(string \<times> pyval) list"
  | PDatetime string

type_synonym pydict = "(string \<times> pyval) list"

text \<open>\<^verbatim>\<open>d.get(key, default)\<close> on a dict.\<close>

definition dget :: "pydict \<Rightarrow> string \<Rightarrow> pyval \<Rightarrow> pyval" where
  "dget d key dflt = (case map_of d key of None \<Rightarrow> dflt | Some v \<Rightarrow> v)"

text \<open>\<^verbatim>\<open>d.get(key, default)\<close> on a dict whose key, when present, has a fixed type.\<close>

definition getd :: "'a option \<Rightarrow> 'a \<Rightarrow> 'a" where
  "getd field dflt = (case field of None \<Rightarrow> dflt | Some v \<Rightarrow> v)"

text \<open>Sequencing of statements that may raise: the first exception ends the block.\<close>

definition then_do :: "exn + 'a \<Rightarrow> ('a \<Rightarrow> exn + 'b) \<Rightarrow> exn + 'b" where
  "then_do r f = (case r of Inl e \<Rightarrow> Inl e | Inr v \<Rightarrow> f v)"

text \<open>Truth value of an object, as \<^verbatim>\<open>if x:\<close> tests it.\<close>

fun truthy :: "pyval \<Rightarrow> bool" where
  "truthy PNone = False"
| "truthy (PBool b) = b"
| "truthy (PNum r) = (r \<noteq> 0)"
| "truthy (PStr s) = (s \<noteq> [])"
| "truthy (PList xs) = (xs \<noteq> [])"
| "truthy (PDict kvs) = (kvs \<noteq> [])"
| "truthy (PDatetime d) = True"

text \<open>
  An operand of arithmetic or of an ordering comparison with a number. A \<^verbatim>\<open>bool\<close>
  counts as 0 or 1; \<^verbatim>\<open>None\<close>, a string, a list or a dict raises \<^verbatim>\<open>TypeError\<close> in the
  statement that uses it (\<^verbatim>\<open>'ab' * 4\<close> is still a string, and the \<^verbatim>\<open>+=\<close> onto the
  numeric score that follows raises).
\<close>

fun as_num :: "pyval \<Rightarrow> exn + real" where
  "as_num (PNum r) = Inr r"
| "as_num (PBool b) = Inr (if b then 1 else 0)"
| "as_num PNone = Inl TypeError"
| "as_num (PStr s) = Inl TypeError"
| "as_num (PList xs) = Inl TypeError"
| "as_num (PDict kvs) = Inl TypeError"
| "as_num (PDatetime d) = Inl TypeError"

text \<open>
  \<^verbatim>\<open>len(x)\<close> and \<^verbatim>\<open>x[:3]\<close>. Slicing a dict raises (\<^verbatim>\<open>TypeError\<close> up to Python 3.11,
  \<^verbatim>\<open>KeyError\<close> from 3.12); the aggregator catches either the same way.
\<close>

fun py_len :: "pyval \<Rightarrow> exn + nat" where
  "py_len (PStr s) = Inr (length s)"
| "py_len (PList xs) = Inr (length xs)"
| "py_len (PDict kvs) = Inr (length kvs)"
| "py_len PNone = Inl TypeError"
| "py_len (PBool b) = Inl TypeError"
| "py_len (PNum r) = Inl TypeError"
| "py_len (PDatetime d) = Inl TypeError"

fun py_slice3 :: "pyval \<Rightarrow> exn + pyval" where
  "py_slice3 (PStr s) = Inr (PStr (take 3 s))"
| "py_slice3 (PList xs) = Inr (PList (take 3 xs))"
| "py_slice3 PNone = Inl TypeError"
| "py_slice3 (PBool b) = Inl TypeError"
| "py_slice3 (PNum r) = Inl TypeError"
| "py_slice3 (PDict kvs) = Inl TypeError"
| "py_slice3 (PDatetime d) = Inl TypeError"

text \<open>
  \<^verbatim>\<open>hash(x)\<close> succeeds, as a lookup \<^verbatim>\<open>d.get(x, default)\<close> needs of its key: a list and a
  dict cannot be hashed, and the lookup raises \<^verbatim>\<open>TypeError\<close>.
\<close>

fun hashable :: "pyval \<Rightarrow> bool" where
  "hashable (PList xs) = False"
| "hashable (PDict kvs) = False"
| "hashable PNone = True"
| "hashable (PBool b) = True"
| "hashable (PNum r) = True"
| "hashable (PStr s) = True"
| "hashable (PDatetime d) = True"

text \<open>\<^verbatim>\<open>x.isoformat()\<close>: only a datetime has the method.\<close>

fun isoformat :: "pyval \<Rightarrow> exn + string" where
  "isoformat (PDatetime d) = Inr d"
| "isoformat PNone = Inl (AttributeError ''isoformat'')"
| "isoformat (PBool b) = Inl (AttributeError ''isoformat'')"
| "isoformat (PNum r) = Inl (AttributeError ''isoformat'')"
| "isoformat (PStr s) = Inl (AttributeError ''isoformat'')"
| "isoformat (PList xs) = Inl (AttributeError ''isoformat'')"
| "isoformat (PDict kvs) = Inl (AttributeError ''isoformat'')"

text \<open>True division \<^verbatim>\<open>a / b\<close>.\<close>

definition py_div :: "real \<Rightarrow> real \<Rightarrow> exn + real" where
  "py_div a b = (if b = 0 then Inl ZeroDivisionError else Inr (a / b))"

text \<open>\<^verbatim>\<open>c.isspace()\<close> and \<^verbatim>\<open>c.isupper()\<close> on the code points below 256.\<close>

definition isspace :: "char \<Rightarrow> bool" where
  "isspace c =
     (let n = (of_char c :: nat)
      in (9 \<le> n \<and> n \<le> 13) \<or> (28 \<le> n \<and> n \<le> 32) \<or> n = 133 \<or> n = 160)"

definition isupper :: "char \<Rightarrow> bool" where
  "isupper c =
     (let n = (of_char c :: nat)
      in (65 \<le> n \<and> n \<le> 90) \<or> (192 \<le> n \<and> n \<le> 214) \<or> (216 \<le> n \<and> n \<le> 222))"

text \<open>\<^verbatim>\<open>s.strip()\<close> and \<^verbatim>\<open>s.strip(chars)\<close>.\<close>

definition strip :: "string \<Rightarrow> string" where
  "strip s = rev (dropWhile isspace (rev (dropWhile isspace s)))"

definition strip_chars :: "string \<Rightarrow> string \<Rightarrow> string" where
  "strip_chars chars s =
     rev (dropWhile (\<lambda>c. List.member chars c) (rev (dropWhile (\<lambda>c. List.member chars c) s)))"

text \<open>
  \<^verbatim>\<open>s.split()\<close>: the maximal runs of characters that are not whitespace. The first
  argument is the word being read, reversed.
\<close>

fun split_from :: "string \<Rightarrow> string \<Rightarrow> string list" where
  "split_from cur [] = (if cur = [] then [] else [rev cur])"
| "split_from cur (c # cs) =
     (if isspace c then (if cur = [] then split_from [] cs else rev cur # split_from [] cs)
      else split_from (c # cur) cs)"

definition split :: "string \<Rightarrow> string list" where
  "split s = split_from [] s"

text \<open>
  \<^verbatim>\<open>re.split(r'[.!?]+', s)\<close>: the pieces between maximal runs of the three marks, the
  empty pieces at either end included. The flag says that the previous character was a
  mark, so that a run separates once.
\<close>

definition is_sentence_mark :: "char \<Rightarrow> bool" where
  "is_sentence_mark c = (c = CHR ''.'' \<or> c = CHR ''!'' \<or> c = CHR ''?'')"

fun re_split_from :: "bool \<Rightarrow> string \<Rightarrow> string \<Rightarrow> string list" where
  "re_split_from in_run cur [] = [rev cur]"
| "re_split_from in_run cur (c # cs) =
     (if is_sentence_mark c
      then (if in_run then re_split_from True cur cs else rev cur # re_split_from True [] cs)
      else re_split_from False (c # cur) cs)"

definition re_split_marks :: "string \<Rightarrow> string list" where
  "re_split_marks s = re_split_from False [] s"

text \<open>\<^verbatim>\<open>s.count(c)\<close> for a one-character \<open>c\<close>.\<close>

definition count_char :: "string \<Rightarrow> char \<Rightarrow> nat" where
  "count_char s c = length (filter (\<lambda>x. x = c) s)"

section \<open>Signal extractors\<close>

subsection \<open>Text statistics\<close>

text \<open>
  The \<^verbatim>\<open>try\<close> block of \<^verbatim>\<open>_analyze_text_stats\<close>. The values of the dict literal are
  evaluated in the order written; the two divisions are the statements that can raise.
  \<^verbatim>\<open>
  words = text.split()
  sentences = re.split(r'[.!?]+', text)
  return {
      'char_count': len(text),
      'word_count': len(words),
      'sentence_count': len([s for s in sentences if s.strip()]),
      'avg_word_length': sum(len(word) for word in words) / len(words) if words else 0,
      'uppercase_ratio': sum(1 for c in text if c.isupper()) / len(text) if text else 0,
      'exclamation_count': text.count('!'),
      'question_count': text.count('?')
  }
  \<close>
\<close>

definition analyze_text_stats_try :: "string \<Rightarrow> exn + pydict" where
  "analyze_text_stats_try text =
     (let words = split text;
          sentences = re_split_marks text
      in then_do (if words \<noteq> []
                  then py_div (real (sum_list (map length words))) (real (length words))
                  else Inr 0) (\<lambda>avg_word_length.
         then_do (if text \<noteq> []
                  then py_div (real (length (filter isupper text))) (real (length text))
                  else Inr 0) (\<lambda>uppercase_ratio.
         Inr [(''char_count'', PNum (real (length text))),
              (''word_count'', PNum (real (length words))),
              (''sentence_count'', PNum (real (length (filter (\<lambda>s. strip s \<noteq> []) sentences)))),
              (''avg_word_length'', PNum avg_word_length),
              (''uppercase_ratio'', PNum uppercase_ratio),
              (''exclamation_count'', PNum (real (count_char text (CHR ''!'')))),
              (''question_count'', PNum (real (count_char text (CHR ''?''))))])))"

text \<open>\<^verbatim>\<open>_analyze_text_stats\<close>: an exception of the block is logged and \<^verbatim>\<open>{}\<close> returned.\<close>

definition analyze_text_stats :: "string \<Rightarrow> pydict" where
  "analyze_text_stats text =
     (case analyze_text_stats_try text of Inl e \<Rightarrow> [] | Inr stats \<Rightarrow> stats)"

subsection \<open>Detector libraries\<close>

text \<open>
  The classifier, the word list and the sentiment lexicon are libraries outside the
  repository. Each call is a parameter of the model: it answers \<open>Inr\<close> a value, or
  \<open>Inl\<close> the text of the exception it raised. \<open>polarity_scores\<close> answers the scores
  \<^verbatim>\<open>compound\<close>, \<^verbatim>\<open>pos\<close>, \<^verbatim>\<open>neg\<close> and \<^verbatim>\<open>neu\<close>, in this order.
\<close>

record libs =
  predict_prob :: "string \<Rightarrow> string + real"
  predict :: "string \<Rightarrow> string + int"
  contains_profanity :: "string \<Rightarrow> string + bool"
  censor :: "string \<Rightarrow> string + string"
  polarity_scores :: "string \<Rightarrow> string + (real \<times> real \<times> real \<times> real)"

text \<open>\<^verbatim>\<open>_ml_profanity_analysis\<close>\<close>

definition ml_profanity_analysis :: "libs \<Rightarrow> string \<Rightarrow> pydict" where
  "ml_profanity_analysis l text =
     (case predict_prob l text of
        Inl e \<Rightarrow> [(''error'', PStr e), (''method'', PStr ''ml_based'')]
      | Inr profanity_prob \<Rightarrow>
          (case predict l text of
             Inl e \<Rightarrow> [(''error'', PStr e), (''method'', PStr ''ml_based'')]
           | Inr label \<Rightarrow>
               (let is_profane = (label = 1)
                in [(''is_profane'', PBool is_profane),
                    (''profanity_probability'', PNum profanity_prob),
                    (''confidence'',
                       PNum (if is_profane then profanity_prob else 1 - profanity_prob)),
                    (''method'', PStr ''ml_based''),
                    (''model'', PStr ''alt-profanity-check'')])))"

text \<open>
  \<^verbatim>\<open>_extract_flagged_words\<close>: the words of the original whose censored counterpart
  differs and holds an asterisk, stripped of punctuation. \<^verbatim>\<open>list(set(flagged))\<close> drops
  the duplicates and leaves the order of the result to the hashes of the run; the model
  takes the order \<open>remdups\<close> gives (each word at its last occurrence). Only the length of
  the list is independent of that choice.
\<close>

definition extract_flagged_words :: "string \<Rightarrow> string \<Rightarrow> string list" where
  "extract_flagged_words original censored =
     (let original_words = split original;
          censored_words = split censored;
          flagged = map (\<lambda>(orig, cens). strip_chars ''.,!?;:'' orig)
                      (filter (\<lambda>(orig, cens). orig \<noteq> cens \<and> List.member cens (CHR ''*''))
                         (zip original_words censored_words))
      in remdups flagged)"

text \<open>\<^verbatim>\<open>_dictionary_profanity_analysis\<close>\<close>

definition dictionary_profanity_analysis :: "libs \<Rightarrow> string \<Rightarrow> pydict" where
  "dictionary_profanity_analysis l text =
     (case contains_profanity l text of
        Inl e \<Rightarrow> [(''error'', PStr e), (''method'', PStr ''dictionary_based'')]
      | Inr has_profanity \<Rightarrow>
          (case censor l text of
             Inl e \<Rightarrow> [(''error'', PStr e), (''method'', PStr ''dictionary_based'')]
           | Inr censored_text \<Rightarrow>
               (let flagged_words = extract_flagged_words text censored_text
                in [(''has_profanity'', PBool has_profanity),
                    (''flagged_words'', PList (map PStr flagged_words)),
                    (''word_count'', PNum (real (length flagged_words))),
                    (''censored_preview'',
                       PStr (if length censored_text > 100
                             then take 100 censored_text @ ''...'' else censored_text)),
                    (''method'', PStr ''dictionary_based''),
                    (''library'', PStr ''better-profanity'')])))"

text \<open>\<^verbatim>\<open>_sentiment_analysis\<close>\<close>

definition sentiment_analysis_of :: "libs \<Rightarrow> string \<Rightarrow> pydict" where
  "sentiment_analysis_of l text =
     (case polarity_scores l text of
        Inl e \<Rightarrow> [(''error'', PStr e), (''method'', PStr ''nltk_vader'')]
      | Inr (compound, pos, neg, neu) \<Rightarrow>
          (let sentiment = (if compound \<ge> 0.05 then ''POSITIVE''
                            else if compound \<le> - 0.05 then ''NEGATIVE''
                            else ''NEUTRAL'')
           in [(''sentiment'', PStr sentiment),
               (''compound_score'', PNum compound),
               (''positive_score'', PNum pos),
               (''negative_score'', PNum neg),
               (''neutral_score'', PNum neu),
               (''intensity'', PNum \<bar>compound\<bar>),
               (''method'', PStr ''nltk_vader'')]))"

section \<open>Signal aggregator\<close>

text \<open>
  A concern is a line of text for the reviewer. The aggregator writes four of them with
  a format string; the model keeps the template and its arguments and does not render
  the digits. \<open>Plain\<close> is a line written as a literal.
\<close>

datatype concern =
    Plain string
  | ML_detected real
  | Dictionary_flagged nat pyval
  | Strong_negative real
  | Moderate_negative real

text \<open>
  The value of an \<^verbatim>\<open>error\<close> key: \<^verbatim>\<open>str(e)\<close> of an exception the service caught, or a
  text handed on from the analyzer.
\<close>

datatype error_text = Str exn | Message string

text \<open>
  The assessment of the aggregator and the final decision are dicts the service builds
  itself and reads with \<^verbatim>\<open>.get(key, default)\<close>. One record has every key either of them
  can hold; a key that a dict does not have is \<open>None\<close>, and \<open>empty_dict\<close> is \<^verbatim>\<open>{}\<close>.
  The keys have the types of the values the service itself stores, except
  \<^verbatim>\<open>recommendation\<close> and \<^verbatim>\<open>ai_insights\<close>, under which the merger stores values of the
  analyzer's answer as they come.
\<close>

record decision =
  should_flag :: "bool option"
  confidence_score :: "real option"
  severity_level :: "string option"
  primary_concerns :: "concern list option"
  flagged_by_methods :: "string list option"
  recommendation :: "pyval option"
  requires_ai_analysis :: "bool option"
  confidence :: "real option"
  primary_method :: "string option"
  reasoning :: "concern list option"
  detection_methods :: "string list option"
  ai_insights :: "pydict option"
  error :: "error_text option"

definition empty_dict :: decision where
  "empty_dict =
     \<lparr>should_flag = None, confidence_score = None, severity_level = None,
      primary_concerns = None, flagged_by_methods = None, recommendation = None,
      requires_ai_analysis = None, confidence = None, primary_method = None,
      reasoning = None, detection_methods = None, ai_insights = None, error = None\<rparr>"

text \<open>
  The dict \<^verbatim>\<open>results\<close> of \<^verbatim>\<open>comprehensive_profanity_analysis\<close>, which is also the
  argument of the aggregator.
\<close>

record analysis_results =
  ml_profanity_check :: pydict
  dictionary_profanity :: pydict
  sentiment_analysis :: pydict
  text_stats :: pydict
  overall_assessment :: decision

text \<open>
  The aggregator keeps three local variables while it reads the reports:
  \<^verbatim>\<open>total_score\<close>, \<^verbatim>\<open>concerns\<close> and \<^verbatim>\<open>flagged_methods\<close>. Each of the four blocks below is
  one commented block of \<^verbatim>\<open>_calculate_overall_assessment\<close> and maps the three variables
  to their values after the block, or raises.
\<close>

type_synonym score_vars = "real \<times> concern list \<times> string list"

text \<open>
  \<^verbatim>\<open>
  ml_result = analysis_results.get('ml_profanity_check', {})
  if ml_result.get('is_profane', False):
      flagged_methods.append('ML_PROFANITY')
      ml_score = ml_result.get('profanity_probability', 0) * 4  # Scale to 0-4
      total_score += ml_score
      concerns.append(f"... detected profanity (confidence: {...:.2f})")
  \<close>
\<close>

definition score_ml :: "analysis_results \<Rightarrow> score_vars \<Rightarrow> exn + score_vars" where
  "score_ml analysis_results = (\<lambda>(total_score, concerns, flagged_methods).
     (let ml_result = ml_profanity_check analysis_results
      in if truthy (dget ml_result ''is_profane'' (PBool False))
         then then_do (as_num (dget ml_result ''profanity_probability'' (PNum 0))) (\<lambda>p.
                Inr (total_score + p * 4,
                     concerns @ [ML_detected p],
                     flagged_methods @ [''ML_PROFANITY'']))
         else Inr (total_score, concerns, flagged_methods)))"

text \<open>
  \<^verbatim>\<open>
  dict_result = analysis_results.get('dictionary_profanity', {})
  if dict_result.get('has_profanity', False):
      flagged_methods.append('DICTIONARY_PROFANITY')
      word_penalty = min(dict_result.get('word_count', 0) * 1.5, 3)  # Max 3 points
      total_score += word_penalty
      flagged_words = dict_result.get('flagged_words', [])
      concerns.append(f"Dictionary flagged {len(flagged_words)} word(s): {flagged_words[:3]}")
  \<close>
\<close>

definition score_dictionary :: "analysis_results \<Rightarrow> score_vars \<Rightarrow> exn + score_vars" where
  "score_dictionary analysis_results = (\<lambda>(total_score, concerns, flagged_methods).
     (let dict_result = dictionary_profanity analysis_results
      in if truthy (dget dict_result ''has_profanity'' (PBool False))
         then then_do (as_num (dget dict_result ''word_count'' (PNum 0))) (\<lambda>word_count.
              (let word_penalty = min (word_count * 1.5) 3;
                   flagged_words = dget dict_result ''flagged_words'' (PList [])
               in then_do (py_len flagged_words) (\<lambda>n.
                  then_do (py_slice3 flagged_words) (\<lambda>first3.
                    Inr (total_score + word_penalty,
                         concerns @ [Dictionary_flagged n first3],
                         flagged_methods @ [''DICTIONARY_PROFANITY''])))))
         else Inr (total_score, concerns, flagged_methods)))"

text \<open>
  \<^verbatim>\<open>
  sentiment_result = analysis_results.get('sentiment_analysis', {})
  if sentiment_result.get('sentiment') == 'NEGATIVE':
      intensity = sentiment_result.get('intensity', 0)
      if intensity > 0.6:  # Strong negative sentiment
          flagged_methods.append('STRONG_NEGATIVE_SENTIMENT')
          total_score += intensity * 2  # Scale negative intensity
          concerns.append(f"Strong negative sentiment (intensity: {intensity:.2f})")
      elif intensity > 0.3:  # Moderate negative sentiment
          flagged_methods.append('MODERATE_NEGATIVE_SENTIMENT')
          total_score += intensity
          concerns.append(f"Moderate negative sentiment (intensity: {intensity:.2f})")
  \<close>
\<close>

definition score_sentiment :: "analysis_results \<Rightarrow> score_vars \<Rightarrow> exn + score_vars" where
  "score_sentiment analysis_results = (\<lambda>(total_score, concerns, flagged_methods).
     (let sentiment_result = sentiment_analysis analysis_results
      in if dget sentiment_result ''sentiment'' PNone = PStr ''NEGATIVE''
         then then_do (as_num (dget sentiment_result ''intensity'' (PNum 0))) (\<lambda>intensity.
                if intensity > 0.6
                then Inr (total_score + intensity * 2,
                          concerns @ [Strong_negative intensity],
                          flagged_methods @ [''STRONG_NEGATIVE_SENTIMENT''])
                else if intensity > 0.3
                then Inr (total_score + intensity,
                          concerns @ [Moderate_negative intensity],
                          flagged_methods @ [''MODERATE_NEGATIVE_SENTIMENT''])
                else Inr (total_score, concerns, flagged_methods))
         else Inr (total_score, concerns, flagged_methods)))"

text \<open>
  \<^verbatim>\<open>
  text_stats = analysis_results.get('text_stats', {})
  if text_stats.get('uppercase_ratio', 0) > 0.3:  # More than 30% uppercase
      flagged_methods.append('EXCESSIVE_CAPS')
      total_score += 0.5
      concerns.append("Excessive capital letters detected")
  if text_stats.get('exclamation_count', 0) > 3:  # Multiple exclamations
      total_score += 0.3
      concerns.append("Multiple exclamation marks")
  \<close>
\<close>

definition score_caps :: "analysis_results \<Rightarrow> score_vars \<Rightarrow> exn + score_vars" where
  "score_caps analysis_results = (\<lambda>(total_score, concerns, flagged_methods).
     then_do (as_num (dget (text_stats analysis_results) ''uppercase_ratio'' (PNum 0)))
       (\<lambda>uppercase_ratio.
          if uppercase_ratio > 0.3
          then Inr (total_score + 0.5,
                    concerns @ [Plain ''Excessive capital letters detected''],
                    flagged_methods @ [''EXCESSIVE_CAPS''])
          else Inr (total_score, concerns, flagged_methods)))"

definition score_exclamations :: "analysis_results \<Rightarrow> score_vars \<Rightarrow> exn + score_vars" where
  "score_exclamations analysis_results = (\<lambda>(total_score, concerns, flagged_methods).
     then_do (as_num (dget (text_stats analysis_results) ''exclamation_count'' (PNum 0)))
       (\<lambda>exclamation_count.
          if exclamation_count > 3
          then Inr (total_score + 0.3,
                    concerns @ [Plain ''Multiple exclamation marks''],
                    flagged_methods)
          else Inr (total_score, concerns, flagged_methods)))"

text \<open>The blocks in the order of the source, from \<^verbatim>\<open>total_score = 0\<close> and two empty lists.\<close>

definition score_signals :: "analysis_results \<Rightarrow> exn + score_vars" where
  "score_signals analysis_results =
     then_do (score_ml analysis_results (0, [], [])) (\<lambda>v1.
     then_do (score_dictionary analysis_results v1) (\<lambda>v2.
     then_do (score_sentiment analysis_results v2) (\<lambda>v3.
     then_do (score_caps analysis_results v3) (\<lambda>v4.
     score_exclamations analysis_results v4))))"

section \<open>Escalation policy\<close>

text \<open>\<^verbatim>\<open>any(xs)\<close> on a list of truth values.\<close>

definition py_any :: "bool list \<Rightarrow> bool" where
  "py_any xs = list_ex (\<lambda>b. b) xs"

text \<open>
  \<^verbatim>\<open>_should_use_ai_analysis\<close>. Its second argument is not read. The \<^verbatim>\<open>except\<close> clause
  (answer \<^verbatim>\<open>False\<close>) has no counterpart: the two keys read hold a number and a list of
  method names whenever they are present, and then no statement of the block raises.
  \<^verbatim>\<open>
  ai_beneficial_conditions = [
      assessment.get('confidence_score', 0) > 0.7,
      len(assessment.get('flagged_by_methods', [])) >= 2,
      0.3 <= assessment.get('confidence_score', 0) <= 0.7,
      'STRONG_NEGATIVE_SENTIMENT' in assessment.get('flagged_by_methods', []) and
      len(assessment.get('flagged_by_methods', [])) == 1
  ]
  return any(ai_beneficial_conditions)
  \<close>
\<close>

definition should_use_ai_analysis :: "decision \<Rightarrow> analysis_results \<Rightarrow> bool" where
  "should_use_ai_analysis assessment analysis_results =
     (let ai_beneficial_conditions =
        [getd (confidence_score assessment) 0 > 0.7,
         length (getd (flagged_by_methods assessment) []) \<ge> 2,
         0.3 \<le> getd (confidence_score assessment) 0
           \<and> getd (confidence_score assessment) 0 \<le> 0.7,
         List.member (getd (flagged_by_methods assessment) []) ''STRONG_NEGATIVE_SENTIMENT''
           \<and> length (getd (flagged_by_methods assessment) []) = 1]
      in py_any ai_beneficial_conditions)"

text \<open>
  The end of the \<^verbatim>\<open>try\<close> block of \<^verbatim>\<open>_calculate_overall_assessment\<close>, from the comment
  \<^verbatim>\<open># Final assessment\<close> on. \<open>severity_threshold\<close> is the attribute of the service,
  \<^verbatim>\<open>int(os.environ.get('SEVERITY_THRESHOLD', '3'))\<close>.
\<close>

definition final_assessment ::
  "int \<Rightarrow> analysis_results \<Rightarrow> score_vars \<Rightarrow> decision" where
  "final_assessment severity_threshold analysis_results = (\<lambda>(total_score, concerns, flagged_methods).
     (let a0 = empty_dict
            \<lparr>should_flag := Some False, confidence_score := Some 0,
             severity_level := Some ''LOW'', primary_concerns := Some [],
             flagged_by_methods := Some [], recommendation := Some (PStr ''APPROVE''),
             requires_ai_analysis := Some False\<rparr>;
          a1 = a0\<lparr>flagged_by_methods := Some flagged_methods,
                  primary_concerns := Some concerns,
                  confidence_score := Some (min (total_score / 6.0) 1.0)\<rparr>;
          a2 = (if total_score \<ge> real_of_int severity_threshold
                then (if total_score \<ge> 5
                      then a1\<lparr>should_flag := Some True, severity_level := Some ''CRITICAL'',
                              recommendation := Some (PStr ''ESCALATE'')\<rparr>
                      else if total_score \<ge> 3.5
                      then a1\<lparr>should_flag := Some True, severity_level := Some ''HIGH'',
                              recommendation := Some (PStr ''FLAG'')\<rparr>
                      else a1\<lparr>should_flag := Some True, severity_level := Some ''MEDIUM'',
                              recommendation := Some (PStr ''REVIEW'')\<rparr>)
                else a1)
      in a2\<lparr>requires_ai_analysis := Some (should_use_ai_analysis a2 analysis_results)\<rparr>))"

text \<open>
  \<^verbatim>\<open>_calculate_overall_assessment\<close>: the assessment, or on an exception of the block the
  fixed dict of the \<^verbatim>\<open>except\<close> clause.
\<close>

definition calculate_overall_assessment :: "int \<Rightarrow> analysis_results \<Rightarrow> decision" where
  "calculate_overall_assessment severity_threshold analysis_results =
     (case score_signals analysis_results of
        Inr vars \<Rightarrow> final_assessment severity_threshold analysis_results vars
      | Inl e \<Rightarrow>
          empty_dict\<lparr>should_flag := Some True, severity_level := Some ''HIGH'',
                     recommendation := Some (PStr ''REVIEW''), error := Some (Str e)\<rparr>)"

text \<open>
  \<^verbatim>\<open>comprehensive_profanity_analysis\<close>. Every method it calls catches its own
  exceptions, so its \<^verbatim>\<open>except\<close> clause has no counterpart.
\<close>

definition comprehensive_profanity_analysis :: "libs \<Rightarrow> int \<Rightarrow> string \<Rightarrow> analysis_results" where
  "comprehensive_profanity_analysis l severity_threshold text =
     (let results = \<lparr>ml_profanity_check = [], dictionary_profanity = [],
                     sentiment_analysis = [], text_stats = [],
                     overall_assessment = empty_dict\<rparr>;
          results = results\<lparr>text_stats := analyze_text_stats text\<rparr>;
          results = results\<lparr>ml_profanity_check := ml_profanity_analysis l text\<rparr>;
          results = results\<lparr>dictionary_profanity := dictionary_profanity_analysis l text\<rparr>;
          results = results\<lparr>sentiment_analysis := sentiment_analysis_of l text\<rparr>
      in results\<lparr>overall_assessment :=
                   calculate_overall_assessment severity_threshold results\<rparr>)"

section \<open>Decision merger\<close>

text \<open>
  \<^verbatim>\<open>_map_ai_urgency_to_severity\<close>: \<^verbatim>\<open>mapping.get(urgency, 'LOW')\<close>. The argument is a
  value of the analyzer's JSON: one of the four names gives itself, any other value that
  can be hashed gives \<^verbatim>\<open>LOW\<close>, and a list or a dict raises \<^verbatim>\<open>TypeError\<close>.
\<close>

definition map_ai_urgency_to_severity :: "pyval \<Rightarrow> exn + string" where
  "map_ai_urgency_to_severity urgency_value =
     (let mapping = [(''LOW'', ''LOW''), (''MEDIUM'', ''MEDIUM''),
                     (''HIGH'', ''HIGH''), (''CRITICAL'', ''CRITICAL'')]
      in if \<not> hashable urgency_value then Inl TypeError
         else Inr (case urgency_value of
                     PStr s \<Rightarrow> getd (map_of mapping s) ''LOW''
                   | _ \<Rightarrow> ''LOW''))"

text \<open>\<^verbatim>\<open>_severity_rank\<close>: a lookup with a default.\<close>

definition severity_rank :: "string \<Rightarrow> int" where
  "severity_rank severity =
     (let ranks = [(''LOW'', 1), (''MEDIUM'', 2), (''HIGH'', 3), (''CRITICAL'', 4)]
      in getd (map_of ranks severity) 1)"

text \<open>
  The dict \<^verbatim>\<open>analyze_with_bedrock\<close> returns: \<^verbatim>\<open>{'ai_analysis', 'model_used', 'success'}\<close>
  when the analyzer answered with a JSON object, \<^verbatim>\<open>{'success': False, 'error'}\<close> when
  the call or the parse failed. \<open>ai_data\<close> is the key \<^verbatim>\<open>ai_analysis\<close>: the JSON object of
  the answer as \<^verbatim>\<open>json.loads\<close> read it, with whatever keys and values the analyzer wrote.
  \<open>ai_error\<close> is the key \<^verbatim>\<open>error\<close>; the value with every key \<open>None\<close> is \<^verbatim>\<open>{}\<close>.
\<close>

record ai_results =
  success :: "bool option"
  ai_data :: "pydict option"
  model_used :: "string option"
  ai_error :: "string option"

definition empty_ai_results :: ai_results where
  "empty_ai_results = \<lparr>success = None, ai_data = None, model_used = None, ai_error = None\<rparr>"

text \<open>
  The \<^verbatim>\<open>try\<close> block of \<^verbatim>\<open>_combine_library_and_ai_results\<close>. Two of its statements can
  raise on the analyzer's values: the lookup of the urgency, and \<^verbatim>\<open>max\<close> of the
  library's confidence and a confidence that is not a number.
  \<^verbatim>\<open>
  final_decision = {
      'should_flag': library_assessment.get('should_flag', False),
      'severity_level': library_assessment.get('severity_level', 'LOW'),
      'confidence': library_assessment.get('confidence_score', 0.5),
      'recommendation': library_assessment.get('recommendation', 'APPROVE'),
      'primary_method': 'combined_analysis',
      'reasoning': library_assessment.get('primary_concerns', []),
      'detection_methods': library_assessment.get('flagged_by_methods', [])
  }
  if ai_results.get('success') and 'ai_analysis' in ai_results:
      ai_data = ai_results['ai_analysis']
      ai_severity = self._map_ai_urgency_to_severity(ai_data.get('urgency', 'LOW'))
      if self._severity_rank(ai_severity) > self._severity_rank(final_decision['severity_level']):
          final_decision.update({
              'severity_level': ai_severity,
              'recommendation': ai_data.get('recommended_action', final_decision['recommendation']),
              'confidence': max(final_decision['confidence'], ai_data.get('confidence', 0)),
              'ai_insights': {
                  'toxicity_score': ai_data.get('toxicity_score', 0),
                  'threat_level': ai_data.get('threat_level', 'NONE'),
                  'content_issues': ai_data.get('content_issues', []),
                  'summary': ai_data.get('summary', ''),
                  'requires_human_review': ai_data.get('requires_human_review', False)
              }
          })
          final_decision['reasoning'].append("AI analysis enhanced severity assessment")
  return final_decision
  \<close>
\<close>

definition combine_try :: "decision \<Rightarrow> ai_results \<Rightarrow> exn + decision" where
  "combine_try library_assessment ai_results =
     (let severity0 = getd (severity_level library_assessment) ''LOW'';
          confidence0 = getd (confidence_score library_assessment) 0.5;
          recommendation0 = getd (recommendation library_assessment) (PStr ''APPROVE'');
          reasoning0 = getd (primary_concerns library_assessment) [];
          final_decision = empty_dict
            \<lparr>should_flag := Some (getd (should_flag library_assessment) False),
             severity_level := Some severity0,
             confidence := Some confidence0,
             recommendation := Some recommendation0,
             primary_method := Some ''combined_analysis'',
             reasoning := Some reasoning0,
             detection_methods := Some (getd (flagged_by_methods library_assessment) [])\<rparr>
      in case ai_data ai_results of
           None \<Rightarrow> Inr final_decision
         | Some ai \<Rightarrow>
             if getd (success ai_results) False
             then then_do (map_ai_urgency_to_severity (dget ai ''urgency'' (PStr ''LOW'')))
                    (\<lambda>ai_severity.
                       if severity_rank ai_severity > severity_rank severity0
                       then then_do (as_num (dget ai ''confidence'' (PNum 0))) (\<lambda>ai_confidence.
                              Inr (final_decision
                                \<lparr>severity_level := Some ai_severity,
                                 recommendation :=
                                   Some (dget ai ''recommended_action'' recommendation0),
                                 confidence := Some (max confidence0 ai_confidence),
                                 ai_insights := Some
                                   [(''toxicity_score'', dget ai ''toxicity_score'' (PNum 0)),
                                    (''threat_level'', dget ai ''threat_level'' (PStr ''NONE'')),
                                    (''content_issues'', dget ai ''content_issues'' (PList [])),
                                    (''summary'', dget ai ''summary'' (PStr [])),
                                    (''requires_human_review'',
                                       dget ai ''requires_human_review'' (PBool False))],
                                 reasoning :=
                                   Some (reasoning0
                                         @ [Plain ''AI analysis enhanced severity assessment''])\<rparr>))
                       else Inr final_decision)
             else Inr final_decision)"

text \<open>
  \<^verbatim>\<open>_combine_library_and_ai_results\<close>: the decision of the block, or on an exception the
  \<^verbatim>\<open>except\<close> clause, \<^verbatim>\<open>return library_assessment\<close>: the argument itself, with the keys of
  an assessment.
\<close>

definition combine_library_and_ai_results :: "decision \<Rightarrow> ai_results \<Rightarrow> decision" where
  "combine_library_and_ai_results library_assessment ai_results =
     (case combine_try library_assessment ai_results of
        Inr final_decision \<Rightarrow> final_decision
      | Inl e \<Rightarrow> library_assessment)"

text \<open>
  The list under \<^verbatim>\<open>reasoning\<close> is the very list under \<^verbatim>\<open>primary_concerns\<close> of the
  argument when that key is present, so the \<^verbatim>\<open>append\<close> above also changes the
  argument. This is the argument after the call; a call that raises has not reached the
  \<^verbatim>\<open>append\<close>.
\<close>

definition library_assessment_after_combine :: "decision \<Rightarrow> ai_results \<Rightarrow> decision" where
  "library_assessment_after_combine library_assessment ai_results =
     (case combine_try library_assessment ai_results of
        Inl e \<Rightarrow> library_assessment
      | Inr final_decision \<Rightarrow>
          (case primary_concerns library_assessment of
             None \<Rightarrow> library_assessment
           | Some concerns \<Rightarrow>
               library_assessment\<lparr>primary_concerns := reasoning final_decision\<rparr>))"

text \<open>
  The last definition of the source file, \<^verbatim>\<open>_ai_to_final_decision(self, ai_results)\<close>.
  It stands after the last \<^verbatim>\<open>return\<close> of \<^verbatim>\<open>lambda_handler\<close>, indented as a statement of
  that function's body, below the end of the class \<^verbatim>\<open>ProductionModerationService\<close>:
  it is a local function of the handler that no run reaches, and not a method of the
  service. This is the dict its body would return; the lookup of the urgency is its one
  statement that can raise.
\<close>

definition ai_to_final_decision :: "ai_results \<Rightarrow> exn + pydict" where
  "ai_to_final_decision ai_results =
     (if \<not> getd (success ai_results) False
      then Inr [(''should_flag'', PBool True),
                (''severity_level'', PStr ''HIGH''),
                (''recommendation'', PStr ''REVIEW''),
                (''primary_method'', PStr ''ai_error_fallback''),
                (''error'', PStr (getd (ai_error ai_results) ''AI analysis failed''))]
      else (let ai = getd (ai_data ai_results) []
            in then_do (map_ai_urgency_to_severity (dget ai ''urgency'' (PStr ''LOW'')))
                 (\<lambda>severity.
                    Inr [(''should_flag'',
                            PBool (List.member [PStr ''FLAG'', PStr ''ESCALATE'', PStr ''REVIEW'']
                                     (dget ai ''recommended_action'' (PStr ''APPROVE'')))),
                         (''severity_level'', PStr severity),
                         (''confidence'', dget ai ''confidence'' (PNum 0.8)),
                         (''recommendation'', dget ai ''recommended_action'' (PStr ''APPROVE'')),
                         (''primary_method'', PStr ''ai_only''),
                         (''reasoning'',
                            PList [dget ai ''summary'' (PStr ''AI analysis completed'')]),
                         (''ai_insights'', PDict ai)])))"

section \<open>Collaborators and the enhanced analysis\<close>

text \<open>
  What \<^verbatim>\<open>get_user_context\<close> returns: the counts of the last 90 days. After a database
  error it returns the user id and a count of 0 only.
\<close>

record user_context =
  ctx_user_id :: string
  complaint_count :: int
  flagged_total :: "int option"
  last_complaint :: "string option"

text \<open>
  A parsed document is what \<^verbatim>\<open>root.find(xpath)\<close> answers for a path: no entry when no
  element matches, \<open>None\<close> for an element without text.
\<close>

type_synonym xml_root = "(string \<times> string option) list"

text \<open>
  The collaborators outside the repository, as parameters: the XML parser (\<open>None\<close> is
  a \<^verbatim>\<open>ParseError\<close>), the user history, the analyzer behind \<^verbatim>\<open>analyze_with_bedrock\<close> (which
  catches every exception and returns one of the two dicts above), and the database
  behind \<^verbatim>\<open>update_moderation_status\<close>: \<open>update_raises n\<close> is \<open>None\<close> when the \<open>n\<close>-th
  call of the run commits, and the text of the exception when it raises.
\<close>

record services =
  ET_fromstring :: "string \<Rightarrow> xml_root option"
  get_user_context :: "string \<Rightarrow> user_context"
  analyze_with_bedrock :: "string \<Rightarrow> user_context \<Rightarrow> ai_results"
  update_raises :: "nat \<Rightarrow> string option"

text \<open>
  The dict \<^verbatim>\<open>results\<close> of \<^verbatim>\<open>enhanced_analysis\<close>, without its time stamp;
  \<open>analysed_text\<close> is the key \<^verbatim>\<open>text\<close> and \<open>failure\<close> the key \<^verbatim>\<open>error\<close>.
\<close>

record enhanced_results =
  analysed_text :: string
  library_analysis :: analysis_results
  ai_analysis :: ai_results
  final_decision :: decision
  failure :: "error_text option"

text \<open>
  \<^verbatim>\<open>enhanced_analysis\<close>. Each method called in its \<^verbatim>\<open>try\<close> block catches its own
  exceptions, so the \<^verbatim>\<open>except\<close> clause (tag \<^verbatim>\<open>error_fallback\<close>) has no counterpart.
  \<^verbatim>\<open>
  library_results = self.comprehensive_profanity_analysis(text)
  results['library_analysis'] = library_results
  overall_assessment = library_results.get('overall_assessment', {})
  if overall_assessment.get('requires_ai_analysis', False):
      ai_results = self.analyze_with_bedrock(text, user_context)
      results['ai_analysis'] = ai_results
      final_decision = self._combine_library_and_ai_results(overall_assessment, ai_results)
  else:
      final_decision = {
          'should_flag': overall_assessment.get('should_flag', False),
          'severity_level': overall_assessment.get('severity_level', 'LOW'),
          'confidence': overall_assessment.get('confidence_score', 0.5),
          'recommendation': overall_assessment.get('recommendation', 'APPROVE'),
          'primary_method': 'libraries_only',
          'reasoning': overall_assessment.get('primary_concerns', []),
          'detection_methods': overall_assessment.get('flagged_by_methods', [])
      }
  results['final_decision'] = final_decision
  \<close>
\<close>

definition enhanced_analysis ::
  "libs \<Rightarrow> services \<Rightarrow> int \<Rightarrow> string \<Rightarrow> user_context \<Rightarrow> enhanced_results" where
  "enhanced_analysis l sv severity_threshold text user_context =
     (let library_results = comprehensive_profanity_analysis l severity_threshold text;
          assessment = overall_assessment library_results
      in if getd (requires_ai_analysis assessment) False
         then (let ai_results = analyze_with_bedrock sv text user_context
               in \<lparr>analysed_text = text,
                   library_analysis = library_results
                     \<lparr>overall_assessment :=
                        library_assessment_after_combine assessment ai_results\<rparr>,
                   ai_analysis = ai_results,
                   final_decision = combine_library_and_ai_results assessment ai_results,
                   failure = None\<rparr>)
         else \<lparr>analysed_text = text,
               library_analysis = library_results,
               ai_analysis = empty_ai_results,
               final_decision = empty_dict
                 \<lparr>should_flag := Some (getd (should_flag assessment) False),
                  severity_level := Some (getd (severity_level assessment) ''LOW''),
                  confidence := Some (getd (confidence_score assessment) 0.5),
                  recommendation := Some (getd (recommendation assessment) (PStr ''APPROVE'')),
                  primary_method := Some ''libraries_only'',
                  reasoning := Some (getd (primary_concerns assessment) []),
                  detection_methods := Some (getd (flagged_by_methods assessment) [])\<rparr>,
               failure = None\<rparr>)"

section \<open>Complaint text extraction\<close>

text \<open>
  \<^verbatim>\<open>_safe_xml_extract\<close>:
  \<^verbatim>\<open>element.text.strip() if element is not None and element.text else None\<close>.
\<close>

definition safe_xml_extract :: "xml_root \<Rightarrow> string \<Rightarrow> string option" where
  "safe_xml_extract doc xpath =
     (case map_of doc xpath of
        None \<Rightarrow> None
      | Some None \<Rightarrow> None
      | Some (Some t) \<Rightarrow> if t \<noteq> [] then Some (strip t) else None)"

text \<open>\<^verbatim>\<open>x or d\<close> for an optional string \<open>x\<close>: \<^verbatim>\<open>None\<close> and the empty string are false.\<close>

definition or_str :: "string option \<Rightarrow> string \<Rightarrow> string" where
  "or_str x d = (case x of None \<Rightarrow> d | Some s \<Rightarrow> if s \<noteq> [] then s else d)"

text \<open>
  \<^verbatim>\<open>xml_to_json_converter\<close>. \<open>None\<close> for no document, a blank one, or one the parser
  refuses; otherwise a dict of three keys.
\<close>

definition xml_to_json_converter :: "services \<Rightarrow> string option \<Rightarrow> pydict option" where
  "xml_to_json_converter sv xml_data =
     (case xml_data of
        None \<Rightarrow> None
      | Some xml \<Rightarrow>
          if xml = [] \<or> strip xml = [] then None
          else (case ET_fromstring sv xml of
                  None \<Rightarrow> None
                | Some doc \<Rightarrow>
                    Some [(''complaint_text'',
                             PStr (or_str (safe_xml_extract doc ''.//complaint_text'')
                                  (or_str (safe_xml_extract doc ''.//description'')
                                  (or_str (safe_xml_extract doc ''.//message'') [])))),
                          (''user_details'',
                             PDict [(''name'', PStr (or_str (safe_xml_extract doc ''.//user_name'') [])),
                                    (''email'', PStr (or_str (safe_xml_extract doc ''.//email'') []))]),
                          (''complaint_details'',
                             PDict [(''subject'', PStr (or_str (safe_xml_extract doc ''.//subject'') [])),
                                    (''description'',
                                       PStr (or_str (safe_xml_extract doc ''.//description'') [])),
                                    (''priority'',
                                       PStr (or_str (safe_xml_extract doc ''.//priority'') ''normal'')),
                                    (''category'',
                                       PStr (or_str (safe_xml_extract doc ''.//category'') ''general''))])]))"

text \<open>
  The inner loop of \<^verbatim>\<open>_extract_complaint_text\<close>: \<^verbatim>\<open>value = value.get(key, {})\<close> along
  a path. A value that is not a dict has no \<^verbatim>\<open>get\<close>.
\<close>

fun walk_path :: "pyval \<Rightarrow> string list \<Rightarrow> exn + pyval" where
  "walk_path v [] = Inr v"
| "walk_path v (key # keys) =
     (case v of
        PDict d \<Rightarrow> walk_path (dget d key (PDict [])) keys
      | _ \<Rightarrow> Inl (AttributeError ''get''))"

text \<open>
  The outer loop: the first path that leads to a string which is not blank gives the
  text, stripped; a path that raises \<^verbatim>\<open>AttributeError\<close> is skipped; the empty string
  when no path gives a text.
\<close>

fun first_text :: "pydict \<Rightarrow> string list list \<Rightarrow> string" where
  "first_text json_data [] = []"
| "first_text json_data (path # paths) =
     (case walk_path (PDict json_data) path of
        Inl e \<Rightarrow> first_text json_data paths
      | Inr (PStr s) \<Rightarrow> if strip s \<noteq> [] then strip s else first_text json_data paths
      | Inr _ \<Rightarrow> first_text json_data paths)"

definition text_paths :: "string list list" where
  "text_paths =
     [[''complaint_text''],
      [''complaint_details'', ''description''],
      [''complaint_details'', ''subject''],
      [''user_details'', ''message''],
      [''description''],
      [''message''],
      [''content'']]"

definition extract_complaint_text :: "pydict \<Rightarrow> string" where
  "extract_complaint_text json_data = first_text json_data text_paths"

text \<open>
  A row of the table \<^verbatim>\<open>complaints\<close> as the handler holds it: a dict with the seven
  columns the query of \<^verbatim>\<open>fetch_complaints_from_db\<close> selects. \<open>rec_id\<close> is the column
  \<^verbatim>\<open>id\<close>. \<open>None\<close> under \<open>complaint_xml\<close>, \<open>category\<close> or \<open>priority\<close> is a stored
  \<^verbatim>\<open>NULL\<close>. \<open>created_at\<close> is the value the driver hands over: a datetime, \<^verbatim>\<open>None\<close> for
  \<^verbatim>\<open>NULL\<close>, or the text of the column when the driver cannot read it as a date (a zero
  date). The query does not select a column \<^verbatim>\<open>retry_count\<close>; the handler reads the key
  with \<^verbatim>\<open>.get('retry_count', 0)\<close>, and \<open>None\<close> under \<open>retry_count\<close> is a row without the key.
\<close>

record db_record =
  rec_id :: int
  user_id :: string
  complaint_xml :: "string option"
  created_at :: pyval
  status :: string
  category :: "string option"
  priority :: "string option"
  retry_count :: "int option"

text \<open>The dict \<^verbatim>\<open>processed_complaint\<close>; the \<open>cd_\<close> keys carry the name of a column.\<close>

record complaint_data =
  db_id :: int
  cd_user_id :: string
  timestamp :: "string option"
  cd_category :: "string option"
  cd_priority :: "string option"
  complaint_text :: string
  original_json :: pydict
  cd_db_record :: db_record

text \<open>
  The \<^verbatim>\<open>try\<close> block of \<^verbatim>\<open>process_complaint_from_db\<close>. The keys \<^verbatim>\<open>category\<close> and
  \<^verbatim>\<open>priority\<close> are columns of the query and so always present: \<^verbatim>\<open>.get\<close> hands on the
  stored value, \<^verbatim>\<open>None\<close> for \<^verbatim>\<open>NULL\<close>, and its default is never taken. The statement that
  can raise is the call \<^verbatim>\<open>.isoformat()\<close> on a \<^verbatim>\<open>created_at\<close> that is not a datetime.
  \<^verbatim>\<open>
  json_data = self.xml_to_json_converter(db_record['complaint_xml'])
  if not json_data:
      return None
  complaint_text = self._extract_complaint_text(json_data)
  if not complaint_text or len(complaint_text.strip()) < 5:
      return None
  processed_complaint = {
      'db_id': db_record['id'],
      'user_id': db_record['user_id'],
      'timestamp': db_record['created_at'].isoformat() if db_record['created_at'] else None,
      'category': db_record.get('category', 'general'),
      'priority': db_record.get('priority', 'normal'),
      'complaint_text': complaint_text,
      'original_json': json_data,
      'db_record': db_record
  }
  return processed_complaint
  \<close>
\<close>

definition process_complaint_try :: "services \<Rightarrow> db_record \<Rightarrow> exn + complaint_data option" where
  "process_complaint_try sv db_record =
     (case xml_to_json_converter sv (complaint_xml db_record) of
        None \<Rightarrow> Inr None
      | Some json_data \<Rightarrow>
          if json_data = [] then Inr None
          else (let text = extract_complaint_text json_data
                in if text = [] \<or> length (strip text) < 5 then Inr None
                   else then_do (if truthy (created_at db_record)
                                 then then_do (isoformat (created_at db_record))
                                        (\<lambda>ts. Inr (Some ts))
                                 else Inr None) (\<lambda>stamp.
                          Inr (Some \<lparr>db_id = rec_id db_record,
                                     cd_user_id = user_id db_record,
                                     timestamp = stamp,
                                     cd_category = category db_record,
                                     cd_priority = priority db_record,
                                     complaint_text = text,
                                     original_json = json_data,
                                     cd_db_record = db_record\<rparr>))))"

text \<open>
  \<^verbatim>\<open>process_complaint_from_db\<close>: the result of the block, or \<^verbatim>\<open>None\<close> from its
  \<^verbatim>\<open>except Exception\<close> clause.
\<close>

definition process_complaint_from_db :: "services \<Rightarrow> db_record \<Rightarrow> complaint_data option" where
  "process_complaint_from_db sv db_record =
     (case process_complaint_try sv db_record of
        Inr processed_complaint \<Rightarrow> processed_complaint
      | Inl e \<Rightarrow> None)"

section \<open>Batch orchestrator\<close>

text \<open>
  The second argument of \<^verbatim>\<open>update_moderation_status\<close>: the dict written to the column
  \<^verbatim>\<open>moderation_result\<close>, without its time stamp. \<open>Error_payload\<close> is the dict of a record
  without usable text, \<open>Retry_payload\<close> the dict of the \<^verbatim>\<open>except\<close> clause with its keys
  \<^verbatim>\<open>error\<close> and \<^verbatim>\<open>retry_count\<close>.
\<close>

datatype payload =
    Error_payload string
  | Retry_payload error_text int
  | Analysis_payload enhanced_results

text \<open>
  The state a run of the handler changes: the rows \<^verbatim>\<open>UPDATE\<close> statements have committed
  (complaint id, \<^verbatim>\<open>moderation_status\<close>, \<^verbatim>\<open>moderation_result\<close>, \<^verbatim>\<open>severity_level\<close>; the
  latest first), the number of calls of \<^verbatim>\<open>update_moderation_status\<close> so far, and the
  five counters of \<^verbatim>\<open>metrics\<close>.
\<close>

record state =
  updates :: "(int \<times> string \<times> payload \<times> string) list"
  update_calls :: nat
  processed_count :: int
  flagged_count :: int
  ai_used_count :: int
  error_count :: int
  library_only_count :: int

text \<open>
  \<^verbatim>\<open>update_moderation_status\<close>: one \<^verbatim>\<open>UPDATE\<close> and its commit, or the exception of the
  database, raised again after logging.
\<close>

definition update_moderation_status ::
  "services \<Rightarrow> int \<Rightarrow> string \<Rightarrow> payload \<Rightarrow> state \<Rightarrow> exn option \<times> state" where
  "update_moderation_status sv complaint_id new_status analysis_result st =
     (let severity = (case analysis_result of
                        Analysis_payload a \<Rightarrow> getd (severity_level (final_decision a)) ''LOW''
                      | Error_payload m \<Rightarrow> ''LOW''
                      | Retry_payload e n \<Rightarrow> ''LOW'');
          st1 = st\<lparr>update_calls := Suc (update_calls st)\<rparr>
      in case update_raises sv (update_calls st) of
           Some msg \<Rightarrow> (Some (DatabaseError msg), st1)
         | None \<Rightarrow>
             (None, st1\<lparr>updates := (complaint_id, new_status, analysis_result, severity)
                                     # updates st1\<rparr>))"

text \<open>
  The \<^verbatim>\<open>try\<close> block of one iteration of the loop of \<^verbatim>\<open>lambda_handler\<close>: the exception
  it raises, if any, and the state it leaves. In the branch of \<^verbatim>\<open>force_ai_analysis\<close> the
  dict literal calls \<^verbatim>\<open>moderation_service._ai_to_final_decision(ai_results)\<close>; the service
  has no such attribute (see \<open>ai_to_final_decision\<close>), so the lookup raises
  \<^verbatim>\<open>AttributeError\<close> after the analyzer has been called. \<^verbatim>\<open>store_flagged_content\<close> and
  \<^verbatim>\<open>send_notification\<close> catch their exceptions and touch neither the table nor the
  counters; they are left out.
\<close>

definition lambda_handler_try ::
  "libs \<Rightarrow> services \<Rightarrow> int \<Rightarrow> bool \<Rightarrow> db_record \<Rightarrow> state \<Rightarrow> exn option \<times> state" where
  "lambda_handler_try l sv severity_threshold force_ai_analysis db_record st =
     (case process_complaint_from_db sv db_record of
        None \<Rightarrow>
          (case update_moderation_status sv (rec_id db_record) ''failed_processing''
                  (Error_payload ''Failed to convert XML to JSON or extract complaint text'') st of
             (Some e, st1) \<Rightarrow> (Some e, st1)
           | (None, st1) \<Rightarrow> (None, st1\<lparr>error_count := error_count st1 + 1\<rparr>))
      | Some cd \<Rightarrow>
          (let user_context = get_user_context sv (cd_user_id cd)
           in if force_ai_analysis
              then (let ai_results = analyze_with_bedrock sv (complaint_text cd) user_context
                    in (Some (AttributeError ''_ai_to_final_decision''), st))
              else (let analysis = enhanced_analysis l sv severity_threshold
                                     (complaint_text cd) user_context;
                        st1 = (if getd (success (ai_analysis analysis)) False
                               then st\<lparr>ai_used_count := ai_used_count st + 1\<rparr>
                               else st\<lparr>library_only_count := library_only_count st + 1\<rparr>);
                        flag = getd (should_flag (final_decision analysis)) False;
                        new_status = (if flag then ''flagged'' else ''approved'')
                    in case update_moderation_status sv (rec_id db_record) new_status
                              (Analysis_payload analysis) st1 of
                         (Some e, st2) \<Rightarrow> (Some e, st2)
                       | (None, st2) \<Rightarrow>
                           (let st3 = (if flag
                                       then st2\<lparr>flagged_count := flagged_count st2 + 1\<rparr>
                                       else st2)
                            in (None, st3\<lparr>processed_count := processed_count st3 + 1\<rparr>)))))"

text \<open>
  One iteration: the \<^verbatim>\<open>try\<close> block and its \<^verbatim>\<open>except Exception\<close> clause, which counts
  the error and calls \<^verbatim>\<open>update_moderation_status\<close> with the status \<^verbatim>\<open>retry\<close> inside a
  \<^verbatim>\<open>try\<close> of its own, whose exception is logged and dropped.
\<close>

definition lambda_handler_record ::
  "libs \<Rightarrow> services \<Rightarrow> int \<Rightarrow> bool \<Rightarrow> db_record \<Rightarrow> state \<Rightarrow> state" where
  "lambda_handler_record l sv severity_threshold force_ai_analysis db_record st =
     (case lambda_handler_try l sv severity_threshold force_ai_analysis db_record st of
        (None, st1) \<Rightarrow> st1
      | (Some e, st1) \<Rightarrow>
          (let st2 = st1\<lparr>error_count := error_count st1 + 1\<rparr>
           in snd (update_moderation_status sv (rec_id db_record) ''retry''
                     (Retry_payload (Str e) (getd (retry_count db_record) 0 + 1)) st2)))"


definition initial_state :: state where
  "initial_state =
     \<lparr>updates = [], update_calls = 0, processed_count = 0, flagged_count = 0,
      ai_used_count = 0, error_count = 0, library_only_count = 0\<rparr>"

section \<open>Example inputs\<close>

text \<open>
  Reports whose classifier entry says \<^verbatim>\<open>is_profane\<close> and carries \<^verbatim>\<open>None\<close> as the
  probability: the multiplication by 4 in the aggregator raises \<^verbatim>\<open>TypeError\<close>.
\<close>

definition broken_reports :: analysis_results where
  "broken_reports =
     \<lparr>ml_profanity_check = [(''is_profane'', PBool True), (''profanity_probability'', PNone)],
      dictionary_profanity = [], sentiment_analysis = [], text_stats = [],
      overall_assessment = empty_dict\<rparr>"

text \<open>
  Reports with a single finding: negative sentiment of intensity 0.8.
\<close>

definition sentiment_only_reports :: analysis_results where
  "sentiment_only_reports =
     \<lparr>ml_profanity_check = [(''is_profane'', PBool False), (''profanity_probability'', PNum 0.1)],
      dictionary_profanity = [(''has_profanity'', PBool False), (''word_count'', PNum 0)],
      sentiment_analysis = [(''sentiment'', PStr ''NEGATIVE''), (''compound_score'', PNum (- 0.8)),
                            (''intensity'', PNum 0.8)],
      text_stats = [(''uppercase_ratio'', PNum 0), (''exclamation_count'', PNum 0)],
      overall_assessment = empty_dict\<rparr>"

text \<open>
  Libraries that find the text hostile: probability 1 with label 1, a word list hit
  whose censored text masks the second word, and a neutral sentiment.
\<close>

definition example_libs :: libs where
  "example_libs =
     \<lparr>predict_prob = (\<lambda>t. Inr 1),
      predict = (\<lambda>t. Inr 1),
      contains_profanity = (\<lambda>t. Inr True),
      censor = (\<lambda>t. Inr ''you *****''),
      polarity_scores = (\<lambda>t. Inr (0, 0, 0, 1))\<rparr>"

text \<open>
  A judgment of the analyzer that asks for more than a low severity, the two dicts
  \<^verbatim>\<open>analyze_with_bedrock\<close> can return, and collaborators: a parser that finds the
  complaint text of two documents, an analyzer that answers, one that times out, a
  database whose first call fails, and one that fails at every call.
\<close>

definition example_judgment :: pydict where
  "example_judgment =
     [(''toxicity_score'', PNum 8), (''threat_level'', PStr ''LOW''),
      (''content_issues'', PList [PStr ''personal attacks'']), (''urgency'', PStr ''HIGH''),
      (''recommended_action'', PStr ''FLAG''), (''summary'', PStr ''Insult aimed at staff''),
      (''confidence'', PNum 0.9), (''requires_human_review'', PBool True)]"

definition example_ai_success :: ai_results where
  "example_ai_success =
     \<lparr>success = Some True, ai_data = Some example_judgment,
      model_used = Some ''anthropic.claude-3-haiku-20240307-v1:0'', ai_error = None\<rparr>"

text \<open>
  An answer of the analyzer whose JSON gives the confidence as a word.
\<close>

definition ill_typed_ai_success :: ai_results where
  "ill_typed_ai_success =
     \<lparr>success = Some True,
      ai_data = Some [(''urgency'', PStr ''CRITICAL''), (''recommended_action'', PStr ''ESCALATE''),
                      (''confidence'', PStr ''high'')],
      model_used = Some ''anthropic.claude-3-haiku-20240307-v1:0'', ai_error = None\<rparr>"

definition example_ai_failure :: ai_results where
  "example_ai_failure =
     \<lparr>success = Some False, ai_data = None, model_used = None,
      ai_error = Some ''Read timed out''\<rparr>"

definition example_services :: services where
  "example_services =
     \<lparr>ET_fromstring =
        (\<lambda>xml. if xml = ''<c><complaint_text>hey</complaint_text></c>''
               then Some [(''.//complaint_text'', Some ''hey'')]
               else Some [(''.//complaint_text'', Some '' you idiot '')]),
      get_user_context =
        (\<lambda>u. \<lparr>ctx_user_id = u, complaint_count = 2, flagged_total = Some 0,
                 last_complaint = None\<rparr>),
      analyze_with_bedrock = (\<lambda>t c. example_ai_success),
      update_raises = (\<lambda>n. None)\<rparr>"

definition timeout_services :: services where
  "timeout_services = example_services\<lparr>analyze_with_bedrock := (\<lambda>t c. example_ai_failure)\<rparr>"



definition example_record :: db_record where
  "example_record =
     \<lparr>rec_id = 1, user_id = ''u1'',
      complaint_xml = Some ''<c><complaint_text> you idiot </complaint_text></c>'',
      created_at = PDatetime ''2024-05-01T10:00:00'', status = ''pending'',
      category = None, priority = Some ''high'', retry_count = None\<rparr>"

definition short_record :: db_record where
  "short_record =
     \<lparr>rec_id = 2, user_id = ''u2'',
      complaint_xml = Some ''<c><complaint_text>hey</complaint_text></c>'',
      created_at = PDatetime ''2024-05-01T10:05:00'', status = ''pending'',
      category = None, priority = None, retry_count = None\<rparr>"

text \<open>
  A row with the complaint of \<open>example_record\<close> whose \<^verbatim>\<open>created_at\<close> holds a zero date,
  which the driver hands over as text.
\<close>

definition zero_date_record :: db_record where
  "zero_date_record =
     \<lparr>rec_id = 3, user_id = ''u3'',
      complaint_xml = Some ''<c><complaint_text> you idiot </complaint_text></c>'',
      created_at = PStr ''0000-00-00 00:00:00'', status = ''pending'',
      category = None, priority = None, retry_count = None\<rparr>"

section \<open>Properties\<close>


subsection \<open>Text statistics\<close>

lemma analyze_text_stats_try_returns:
  "analyze_text_stats_try text =
     Inr [(''char_count'', PNum (real (length text))),
          (''word_count'', PNum (real (length (split text)))),
          (''sentence_count'',
             PNum (real (length (filter (\<lambda>s. strip s \<noteq> []) (re_split_marks text))))),
          (''avg_word_length'',
             PNum (if split text = [] then 0
                   else real (sum_list (map length (split text))) / real (length (split text)))),
          (''uppercase_ratio'',
             PNum (if text = [] then 0
                   else real (length (filter isupper text)) / real (length text))),
          (''exclamation_count'', PNum (real (count_char text (CHR ''!'')))),
          (''question_count'', PNum (real (count_char text (CHR ''?''))))]"
  by (simp add: analyze_text_stats_try_def then_do_def py_div_def Let_def)

lemma analyze_text_stats_empty:
  "analyze_text_stats [] =
     [(''char_count'', PNum 0), (''word_count'', PNum 0), (''sentence_count'', PNum 0),
      (''avg_word_length'', PNum 0), (''uppercase_ratio'', PNum 0),
      (''exclamation_count'', PNum 0), (''question_count'', PNum 0)]"
  by (simp add: analyze_text_stats_def analyze_text_stats_try_def then_do_def split_def
      re_split_marks_def strip_def count_char_def)

text \<open>
  C9. For the empty text every statistic is 0. For every text the block of
  \<^verbatim>\<open>_analyze_text_stats\<close> returns its dict: the average word length is 0 when the text
  has no word and the quotient otherwise, the uppercase ratio is 0 when the text is
  empty and the quotient otherwise, so neither division has a zero divisor, the block
  never raises \<^verbatim>\<open>ZeroDivisionError\<close>, and the method never falls back to \<^verbatim>\<open>{}\<close>.
\<close>

theorem text_stats_empty_and_guarded:
  "analyze_text_stats [] =
     [(''char_count'', PNum 0), (''word_count'', PNum 0), (''sentence_count'', PNum 0),
      (''avg_word_length'', PNum 0), (''uppercase_ratio'', PNum 0),
      (''exclamation_count'', PNum 0), (''question_count'', PNum 0)]
   \<and> analyze_text_stats_try text \<noteq> Inl ZeroDivisionError
   \<and> analyze_text_stats_try text = Inr (analyze_text_stats text)
   \<and> analyze_text_stats text =
       [(''char_count'', PNum (real (length text))),
        (''word_count'', PNum (real (length (split text)))),
        (''sentence_count'',
           PNum (real (length (filter (\<lambda>s. strip s \<noteq> []) (re_split_marks text))))),
        (''avg_word_length'',
           PNum (if split text = [] then 0
                 else real (sum_list (map length (split text))) / real (length (split text)))),
        (''uppercase_ratio'',
           PNum (if text = [] then 0
                 else real (length (filter isupper text)) / real (length text))),
        (''exclamation_count'', PNum (real (count_char text (CHR ''!'')))),
        (''question_count'', PNum (real (count_char text (CHR ''?''))))]"
proof -
  note r = analyze_text_stats_try_returns [of "text"]
  have "analyze_text_stats_try text \<noteq> Inl ZeroDivisionError"
    unfolding r by simp
  moreover have "analyze_text_stats_try text = Inr (analyze_text_stats text)"
    unfolding analyze_text_stats_def r by simp
  moreover have "analyze_text_stats text =
       [(''char_count'', PNum (real (length text))),
        (''word_count'', PNum (real (length (split text)))),
        (''sentence_count'',
           PNum (real (length (filter (\<lambda>s. strip s \<noteq> []) (re_split_marks text))))),
        (''avg_word_length'',
           PNum (if split text = [] then 0
                 else real (sum_list (map length (split text))) / real (length (split text)))),
        (''uppercase_ratio'',
           PNum (if text = [] then 0
                 else real (length (filter isupper text)) / real (length text))),
        (''exclamation_count'', PNum (real (count_char text (CHR ''!'')))),
        (''question_count'', PNum (real (count_char text (CHR ''?''))))]"
    unfolding analyze_text_stats_def r by simp
  ultimately show ?thesis using analyze_text_stats_empty by blast
qed

theorem text_stats_witness:
  "analyze_text_stats_try ''Hi there! OK?'' \<noteq> Inl ZeroDivisionError
   \<and> analyze_text_stats ''Hi there! OK?'' =
     [(''char_count'', PNum 13), (''word_count'', PNum 3), (''sentence_count'', PNum 2),
      (''avg_word_length'', PNum (11 / 3)), (''uppercase_ratio'', PNum (3 / 13)),
      (''exclamation_count'', PNum 1), (''question_count'', PNum 1)]"
  using text_stats_empty_and_guarded [of "''Hi there! OK?''"]
  by (simp add: analyze_text_stats_def analyze_text_stats_try_def then_do_def split_def py_div_def
        re_split_marks_def strip_def count_char_def isspace_def isupper_def is_sentence_mark_def)

subsection \<open>Signal aggregator\<close>

lemma severity_rank_simps:
  "severity_rank ''LOW'' = 1" "severity_rank ''MEDIUM'' = 2"
  "severity_rank ''HIGH'' = 3" "severity_rank ''CRITICAL'' = 4"
  by (simp_all add: severity_rank_def getd_def)

lemma final_assessment_fields:
  "should_flag (final_assessment thr r (tot, cs, ms)) = Some (real_of_int thr \<le> tot)"
  "confidence_score (final_assessment thr r (tot, cs, ms)) = Some (min (tot / 6) 1)"
  "flagged_by_methods (final_assessment thr r (tot, cs, ms)) = Some ms"
  "primary_concerns (final_assessment thr r (tot, cs, ms)) = Some cs"
  "severity_level (final_assessment thr r (tot, cs, ms)) =
     Some (if tot < real_of_int thr then ''LOW'' else if 5 \<le> tot then ''CRITICAL''
           else if 3.5 \<le> tot then ''HIGH'' else ''MEDIUM'')"
  "recommendation (final_assessment thr r (tot, cs, ms)) =
     Some (PStr (if tot < real_of_int thr then ''APPROVE'' else if 5 \<le> tot then ''ESCALATE''
                 else if 3.5 \<le> tot then ''FLAG'' else ''REVIEW''))"
  by (simp_all add: final_assessment_def Let_def empty_dict_def)

lemma final_assessment_requires:
  "requires_ai_analysis (final_assessment thr r v) =
     Some (should_use_ai_analysis (final_assessment thr r v) r)"
  by (cases v) (simp add: final_assessment_def Let_def should_use_ai_analysis_def)

lemma final_assessment_indep:
  "final_assessment thr r v = final_assessment thr r' v"
  by (simp add: final_assessment_def should_use_ai_analysis_def)

lemma sole_member: "(x \<in> set ms \<and> length ms = Suc 0) = (ms = [x])"
  by (cases ms) auto

lemma should_use_ai_analysis_iff:
  "should_use_ai_analysis a r =
     (getd (confidence_score a) 0 > 0.7
      \<or> 2 \<le> length (getd (flagged_by_methods a) [])
      \<or> (0.3 \<le> getd (confidence_score a) 0 \<and> getd (confidence_score a) 0 \<le> 0.7)
      \<or> getd (flagged_by_methods a) [] = [''STRONG_NEGATIVE_SENTIMENT''])"
  unfolding should_use_ai_analysis_def py_any_def Let_def
  by (simp add: sole_member)

lemma calculate_scored:
  assumes "score_signals r = Inr (tot, cs, ms)"
  shows "calculate_overall_assessment thr r = final_assessment thr r (tot, cs, ms)"
  using assms by (simp add: calculate_overall_assessment_def)

lemma severity_rank_ladder:
  "severity_rank (if tot < real_of_int thr then ''LOW'' else if 5 \<le> tot then ''CRITICAL''
           else if 3.5 \<le> tot then ''HIGH'' else ''MEDIUM'') =
     (if tot < real_of_int thr then 1 else if 5 \<le> tot then 4 else if 3.5 \<le> tot then 3 else 2)"
  by (simp add: severity_rank_simps)

lemma sentiment_only_scores:
  "score_signals sentiment_only_reports =
     Inr (1.6, [Strong_negative 0.8], [''STRONG_NEGATIVE_SENTIMENT''])"
  by (simp add: score_signals_def score_ml_def score_dictionary_def score_sentiment_def
      score_caps_def score_exclamations_def sentiment_only_reports_def then_do_def dget_def)

lemma comprehensive_fields:
  "ml_profanity_check (comprehensive_profanity_analysis l thr tx) = ml_profanity_analysis l tx"
  "dictionary_profanity (comprehensive_profanity_analysis l thr tx) = dictionary_profanity_analysis l tx"
  "sentiment_analysis (comprehensive_profanity_analysis l thr tx) = sentiment_analysis_of l tx"
  "text_stats (comprehensive_profanity_analysis l thr tx) = analyze_text_stats tx"
  by (simp_all add: comprehensive_profanity_analysis_def Let_def)

lemma example_reports:
  "ml_profanity_analysis example_libs ''you idiot'' =
     [(''is_profane'', PBool True), (''profanity_probability'', PNum 1), (''confidence'', PNum 1),
      (''method'', PStr ''ml_based''), (''model'', PStr ''alt-profanity-check'')]"
  "dictionary_profanity_analysis example_libs ''you idiot'' =
     [(''has_profanity'', PBool True), (''flagged_words'', PList [PStr ''idiot'']),
      (''word_count'', PNum 1), (''censored_preview'', PStr ''you *****''),
      (''method'', PStr ''dictionary_based''), (''library'', PStr ''better-profanity'')]"
  "sentiment_analysis_of example_libs ''you idiot'' =
     [(''sentiment'', PStr ''NEUTRAL''), (''compound_score'', PNum 0), (''positive_score'', PNum 0),
      (''negative_score'', PNum 0), (''neutral_score'', PNum 1), (''intensity'', PNum 0),
      (''method'', PStr ''nltk_vader'')]"
  "analyze_text_stats ''you idiot'' =
     [(''char_count'', PNum 9), (''word_count'', PNum 2), (''sentence_count'', PNum 1),
      (''avg_word_length'', PNum 4), (''uppercase_ratio'', PNum 0),
      (''exclamation_count'', PNum 0), (''question_count'', PNum 0)]"
     apply (simp add: ml_profanity_analysis_def example_libs_def)
    apply (simp add: dictionary_profanity_analysis_def example_libs_def extract_flagged_words_def
      split_def strip_chars_def isspace_def)
   apply (simp add: sentiment_analysis_of_def example_libs_def)
  apply (simp add: analyze_text_stats_def analyze_text_stats_try_def then_do_def split_def py_div_def
        re_split_marks_def strip_def count_char_def isspace_def isupper_def is_sentence_mark_def)
  done

lemma example_scores:
  "score_signals (comprehensive_profanity_analysis example_libs thr ''you idiot'') =
     Inr (5.5, [ML_detected 1, Dictionary_flagged 1 (PList [PStr ''idiot''])],
          [''ML_PROFANITY'', ''DICTIONARY_PROFANITY''])"
  by (simp add: score_signals_def score_ml_def score_dictionary_def score_sentiment_def
      score_caps_def score_exclamations_def comprehensive_fields example_reports
      then_do_def dget_def)

lemma score_ml_nonneg:
  assumes "case predict_prob l tx of Inl e \<Rightarrow> True | Inr p \<Rightarrow> 0 \<le> p"
    and "ml_profanity_check r = ml_profanity_analysis l tx" and "0 \<le> t"
  shows "\<exists>t' cs' ms'. score_ml r (t, cs, ms) = Inr (t', cs', ms') \<and> 0 \<le> t'"
  using assms
  by (auto simp: score_ml_def ml_profanity_analysis_def dget_def then_do_def Let_def
      split: sum.splits)

lemma score_dictionary_nonneg:
  assumes "dictionary_profanity r = dictionary_profanity_analysis l tx" and "0 \<le> t"
  shows "\<exists>t' cs' ms'. score_dictionary r (t, cs, ms) = Inr (t', cs', ms') \<and> 0 \<le> t'"
  using assms
  by (auto simp: score_dictionary_def dictionary_profanity_analysis_def dget_def then_do_def
      Let_def split: sum.splits)

lemma score_sentiment_nonneg:
  assumes "sentiment_analysis r = sentiment_analysis_of l tx" and "0 \<le> t"
  shows "\<exists>t' cs' ms'. score_sentiment r (t, cs, ms) = Inr (t', cs', ms') \<and> 0 \<le> t'"
  using assms
  by (auto simp: score_sentiment_def sentiment_analysis_of_def dget_def then_do_def
      Let_def split: sum.splits)

lemma text_stats_numbers:
  "\<exists>u x. dget (analyze_text_stats tx) ''uppercase_ratio'' (PNum 0) = PNum u
       \<and> dget (analyze_text_stats tx) ''exclamation_count'' (PNum 0) = PNum x"
  by (simp add: analyze_text_stats_def analyze_text_stats_try_returns dget_def)

lemma score_caps_nonneg:
  assumes "text_stats r = analyze_text_stats tx" and "0 \<le> t"
  shows "\<exists>t' cs' ms'. score_caps r (t, cs, ms) = Inr (t', cs', ms') \<and> 0 \<le> t'"
proof -
  from text_stats_numbers [of tx] obtain u where
    "dget (analyze_text_stats tx) ''uppercase_ratio'' (PNum 0) = PNum u" by blast
  with assms show ?thesis by (simp add: score_caps_def then_do_def)
qed

lemma score_exclamations_nonneg:
  assumes "text_stats r = analyze_text_stats tx" and "0 \<le> t"
  shows "\<exists>t' cs' ms'. score_exclamations r (t, cs, ms) = Inr (t', cs', ms') \<and> 0 \<le> t'"
proof -
  from text_stats_numbers [of tx] obtain x where
    "dget (analyze_text_stats tx) ''exclamation_count'' (PNum 0) = PNum x" by blast
  with assms show ?thesis by (simp add: score_exclamations_def then_do_def)
qed

lemma score_signals_cong:
  assumes "ml_profanity_check r = ml_profanity_check r'"
    "dictionary_profanity r = dictionary_profanity r'"
    "sentiment_analysis r = sentiment_analysis r'"
    "text_stats r = text_stats r'"
  shows "score_signals r = score_signals r'"
  unfolding score_signals_def score_ml_def score_dictionary_def score_sentiment_def
      score_caps_def score_exclamations_def assms ..

lemma calculate_overall_assessment_cong:
  assumes "ml_profanity_check r = ml_profanity_check r'"
    "dictionary_profanity r = dictionary_profanity r'"
    "sentiment_analysis r = sentiment_analysis r'"
    "text_stats r = text_stats r'"
  shows "calculate_overall_assessment thr r = calculate_overall_assessment thr r'"
  unfolding calculate_overall_assessment_def score_signals_cong [OF assms]
    final_assessment_indep [of thr r _ r'] ..

lemma comprehensive_overall:
  "overall_assessment (comprehensive_profanity_analysis l thr tx) =
     calculate_overall_assessment thr (comprehensive_profanity_analysis l thr tx)"
proof -
  have "overall_assessment (comprehensive_profanity_analysis l thr tx) =
     calculate_overall_assessment thr
       \<lparr>ml_profanity_check = ml_profanity_analysis l tx,
        dictionary_profanity = dictionary_profanity_analysis l tx,
        sentiment_analysis = sentiment_analysis_of l tx,
        text_stats = analyze_text_stats tx,
        overall_assessment = empty_dict\<rparr>"
    by (simp add: comprehensive_profanity_analysis_def Let_def)
  also have "\<dots> = calculate_overall_assessment thr (comprehensive_profanity_analysis l thr tx)"
    by (rule calculate_overall_assessment_cong) (simp_all add: comprehensive_fields)
  finally show ?thesis .
qed

lemma score_signals_extracted_nonneg:
  assumes "case predict_prob l tx of Inl e \<Rightarrow> True | Inr p \<Rightarrow> 0 \<le> p"
  shows "\<exists>tot cs ms. score_signals (comprehensive_profanity_analysis l thr tx) = Inr (tot, cs, ms)
           \<and> 0 \<le> tot"
proof -
  let ?r = "comprehensive_profanity_analysis l thr tx"
  obtain t1 c1 m1 where s1: "score_ml ?r (0, [], []) = Inr (t1, c1, m1)" and n1: "0 \<le> t1"
    using score_ml_nonneg [OF assms comprehensive_fields(1) order_refl] by blast
  obtain t2 c2 m2 where s2: "score_dictionary ?r (t1, c1, m1) = Inr (t2, c2, m2)" and n2: "0 \<le> t2"
    using score_dictionary_nonneg [OF comprehensive_fields(2) n1] by blast
  obtain t3 c3 m3 where s3: "score_sentiment ?r (t2, c2, m2) = Inr (t3, c3, m3)" and n3: "0 \<le> t3"
    using score_sentiment_nonneg [OF comprehensive_fields(3) n2] by blast
  obtain t4 c4 m4 where s4: "score_caps ?r (t3, c3, m3) = Inr (t4, c4, m4)" and n4: "0 \<le> t4"
    using score_caps_nonneg [OF comprehensive_fields(4) n3] by blast
  obtain t5 c5 m5 where s5: "score_exclamations ?r (t4, c4, m4) = Inr (t5, c5, m5)" and n5: "0 \<le> t5"
    using score_exclamations_nonneg [OF comprehensive_fields(4) n4] by blast
  have "score_signals ?r = Inr (t5, c5, m5)"
    by (simp add: score_signals_def then_do_def s1 s2 s3 s4 s5)
  with n5 show ?thesis by blast
qed

text \<open>
  C8. Take the reports the four extractors produce for a text, under the one assumption
  on the libraries that the classifier's probability, when it answers, is not negative.
  Then the aggregator's scoring does not raise, every contribution is non-negative and so
  is \<^verbatim>\<open>total_score\<close>, and \<^verbatim>\<open>confidence_score\<close> is \<open>min (total_score / 6.0) 1.0\<close>, a number
  between 0 and 1. (The dictionary penalty and the sentiment terms are non-negative by
  the code of the extractors: a length, and an absolute value.)
\<close>

theorem confidence_score_range:
  assumes "case predict_prob l tx of Inl e \<Rightarrow> True | Inr p \<Rightarrow> 0 \<le> p"
  shows "\<exists>tot cs ms.
           score_signals (comprehensive_profanity_analysis l thr tx) = Inr (tot, cs, ms)
         \<and> 0 \<le> tot
         \<and> confidence_score (overall_assessment (comprehensive_profanity_analysis l thr tx)) =
             Some (min (tot / 6.0) 1.0)
         \<and> 0 \<le> min (tot / 6.0) 1.0 \<and> min (tot / 6.0) 1.0 \<le> 1"
proof -
  obtain tot cs ms where
    s: "score_signals (comprehensive_profanity_analysis l thr tx) = Inr (tot, cs, ms)"
    and n: "0 \<le> tot"
    using score_signals_extracted_nonneg [OF assms] by blast
  have "confidence_score (overall_assessment (comprehensive_profanity_analysis l thr tx)) =
             Some (min (tot / 6.0) 1.0)"
    by (simp add: comprehensive_overall calculate_scored [OF s] final_assessment_fields)
  moreover from n have "0 \<le> min (tot / 6.0) 1.0 \<and> min (tot / 6.0) 1.0 \<le> 1" by simp
  ultimately show ?thesis using s n by blast
qed

theorem confidence_score_range_witness:
  "(case predict_prob example_libs ''you idiot'' of Inl e \<Rightarrow> True | Inr p \<Rightarrow> 0 \<le> p)
   \<and> score_signals (comprehensive_profanity_analysis example_libs 3 ''you idiot'') =
       Inr (5.5, [ML_detected 1, Dictionary_flagged 1 (PList [PStr ''idiot''])],
            [''ML_PROFANITY'', ''DICTIONARY_PROFANITY''])
   \<and> confidence_score (overall_assessment (comprehensive_profanity_analysis example_libs 3 ''you idiot'')) =
       Some (11 / 12)
   \<and> (0::real) \<le> 11 / 12 \<and> (11 / 12 :: real) \<le> 1"
proof -
  have h: "case predict_prob example_libs ''you idiot'' of Inl e \<Rightarrow> True | Inr p \<Rightarrow> 0 \<le> p"
    by (simp add: example_libs_def)
  from confidence_score_range [OF h, of 3] obtain tot cs ms where
    a: "score_signals (comprehensive_profanity_analysis example_libs 3 ''you idiot'') = Inr (tot, cs, ms)"
    and c: "confidence_score (overall_assessment
              (comprehensive_profanity_analysis example_libs 3 ''you idiot'')) = Some (min (tot / 6.0) 1.0)"
    by blast
  from a have "tot = 5.5" by (simp add: example_scores)
  with c h show ?thesis by (simp add: example_scores)
qed

text \<open>
  C7. Whenever a statement of the aggregator's \<^verbatim>\<open>try\<close> block raises, the aggregator
  returns the fixed dict of its \<^verbatim>\<open>except\<close> clause: \<^verbatim>\<open>should_flag\<close> true, severity
  \<^verbatim>\<open>HIGH\<close>, recommendation \<^verbatim>\<open>REVIEW\<close> (and so never \<^verbatim>\<open>APPROVE\<close>), with the text of the
  exception.
\<close>

theorem aggregator_fail_safe:
  assumes "score_signals r = Inl e"
  shows "calculate_overall_assessment thr r =
           empty_dict\<lparr>should_flag := Some True, severity_level := Some ''HIGH'',
                      recommendation := Some (PStr ''REVIEW''), error := Some (Str e)\<rparr>
         \<and> should_flag (calculate_overall_assessment thr r) = Some True
         \<and> severity_level (calculate_overall_assessment thr r) = Some ''HIGH''
         \<and> recommendation (calculate_overall_assessment thr r) = Some (PStr ''REVIEW'')
         \<and> recommendation (calculate_overall_assessment thr r) \<noteq> Some (PStr ''APPROVE'')"
  using assms by (simp add: calculate_overall_assessment_def empty_dict_def)

theorem aggregator_fail_safe_witness:
  "score_signals broken_reports = Inl TypeError
   \<and> should_flag (calculate_overall_assessment 3 broken_reports) = Some True
   \<and> severity_level (calculate_overall_assessment 3 broken_reports) = Some ''HIGH''
   \<and> recommendation (calculate_overall_assessment 3 broken_reports) = Some (PStr ''REVIEW'')"
proof -
  have f: "score_signals broken_reports = Inl TypeError"
    by (simp add: score_signals_def score_ml_def broken_reports_def then_do_def dget_def)
  from aggregator_fail_safe [OF f, of 3] f show ?thesis by simp
qed

text \<open>
  C5. \<^verbatim>\<open>_should_use_ai_analysis\<close> answers true exactly when the confidence score is above
  0.7, or at least two methods triggered, or the confidence score lies in [0.3, 0.7], or
  \<^verbatim>\<open>STRONG_NEGATIVE_SENTIMENT\<close> is the one triggered method; \<^verbatim>\<open>requires_ai_analysis\<close> of
  every assessment the aggregator computes is that answer, in terms of its total score
  and methods. In particular, with the sole method \<^verbatim>\<open>STRONG_NEGATIVE_SENTIMENT\<close> and a
  total score of 1.6 the confidence is 4/15, below 0.3, and \<^verbatim>\<open>requires_ai_analysis\<close> is
  true.
\<close>

theorem escalation_policy:
  "should_use_ai_analysis a r =
     (getd (confidence_score a) 0 > 0.7
      \<or> 2 \<le> length (getd (flagged_by_methods a) [])
      \<or> (0.3 \<le> getd (confidence_score a) 0 \<and> getd (confidence_score a) 0 \<le> 0.7)
      \<or> getd (flagged_by_methods a) [] = [''STRONG_NEGATIVE_SENTIMENT''])
   \<and> (score_signals r = Inr (tot, cs, ms) \<longrightarrow>
        requires_ai_analysis (calculate_overall_assessment thr r) =
          Some (min (tot / 6) 1 > 0.7
                \<or> 2 \<le> length ms
                \<or> (0.3 \<le> min (tot / 6) 1 \<and> min (tot / 6) 1 \<le> 0.7)
                \<or> ms = [''STRONG_NEGATIVE_SENTIMENT'']))
   \<and> (score_signals r = Inr (1.6, cs, [''STRONG_NEGATIVE_SENTIMENT'']) \<longrightarrow>
        confidence_score (calculate_overall_assessment thr r) = Some (4 / 15)
        \<and> (4 / 15 :: real) < 0.3
        \<and> requires_ai_analysis (calculate_overall_assessment thr r) = Some True)"
proof -
  have p2: "requires_ai_analysis (calculate_overall_assessment thr r) =
          Some (min (tot / 6) 1 > 0.7
                \<or> 2 \<le> length ms
                \<or> (0.3 \<le> min (tot / 6) 1 \<and> min (tot / 6) 1 \<le> 0.7)
                \<or> ms = [''STRONG_NEGATIVE_SENTIMENT''])"
    if h: "score_signals r = Inr (tot, cs, ms)" for tot cs ms
    unfolding calculate_scored [OF h] final_assessment_requires should_use_ai_analysis_iff
      final_assessment_fields getd_def by simp
  have p3: "confidence_score (calculate_overall_assessment thr r) = Some (4 / 15)
        \<and> (4 / 15 :: real) < 0.3
        \<and> requires_ai_analysis (calculate_overall_assessment thr r) = Some True"
    if h: "score_signals r = Inr (1.6, cs, [''STRONG_NEGATIVE_SENTIMENT''])"
    using p2 [OF h] by (simp add: calculate_scored [OF h] final_assessment_fields)
  from should_use_ai_analysis_iff [of a r] p2 [of tot cs ms] p3 show ?thesis by blast
qed

theorem escalation_policy_witness:
  "score_signals sentiment_only_reports =
     Inr (1.6, [Strong_negative 0.8], [''STRONG_NEGATIVE_SENTIMENT''])
   \<and> confidence_score (calculate_overall_assessment 3 sentiment_only_reports) = Some (4 / 15)
   \<and> (4 / 15 :: real) < 0.3
   \<and> requires_ai_analysis (calculate_overall_assessment 3 sentiment_only_reports) = Some True"
  using escalation_policy [of "calculate_overall_assessment 3 sentiment_only_reports"
      sentiment_only_reports "1.6" "[Strong_negative 0.8]" "[''STRONG_NEGATIVE_SENTIMENT'']" 3]
    sentiment_only_scores
  by simp

text \<open>
  C4, as amended. \<^verbatim>\<open>should_flag\<close> is \<open>total_score \<ge> severity_threshold\<close>. The severity
  ladder is read only when \<^verbatim>\<open>should_flag\<close> holds: then \<^verbatim>\<open>CRITICAL\<close>/\<^verbatim>\<open>ESCALATE\<close> from 5,
  \<^verbatim>\<open>HIGH\<close>/\<^verbatim>\<open>FLAG\<close> from 3.5, \<^verbatim>\<open>MEDIUM\<close>/\<^verbatim>\<open>REVIEW\<close> below; a score under the threshold is
  \<^verbatim>\<open>LOW\<close>/\<^verbatim>\<open>APPROVE\<close> whatever its size. For a threshold of at most 3 (the default is 3)
  this is the ladder of the claim. For every threshold the severity rank does not
  decrease when the total score grows.
\<close>

theorem severity_assignment:
  assumes "score_signals r = Inr (tot, cs, ms)"
    and "score_signals r' = Inr (tot', cs', ms')"
  shows "should_flag (calculate_overall_assessment thr r) = Some (real_of_int thr \<le> tot)
   \<and> (severity_level (calculate_overall_assessment thr r),
      recommendation (calculate_overall_assessment thr r)) =
       (if tot < real_of_int thr then (Some ''LOW'', Some (PStr ''APPROVE''))
        else if 5 \<le> tot then (Some ''CRITICAL'', Some (PStr ''ESCALATE''))
        else if 3.5 \<le> tot then (Some ''HIGH'', Some (PStr ''FLAG''))
        else (Some ''MEDIUM'', Some (PStr ''REVIEW'')))
   \<and> (thr \<le> 3 \<longrightarrow>
       (severity_level (calculate_overall_assessment thr r),
        recommendation (calculate_overall_assessment thr r)) =
         (if 5 \<le> tot then (Some ''CRITICAL'', Some (PStr ''ESCALATE''))
          else if 3.5 \<le> tot then (Some ''HIGH'', Some (PStr ''FLAG''))
          else if real_of_int thr \<le> tot then (Some ''MEDIUM'', Some (PStr ''REVIEW''))
          else (Some ''LOW'', Some (PStr ''APPROVE''))))
   \<and> (tot \<le> tot' \<longrightarrow>
       severity_rank (getd (severity_level (calculate_overall_assessment thr r)) ''LOW'')
         \<le> severity_rank (getd (severity_level (calculate_overall_assessment thr r')) ''LOW''))"
proof -
  have a: "should_flag (calculate_overall_assessment thr r) = Some (real_of_int thr \<le> tot)"
    by (simp add: calculate_scored [OF assms(1)] final_assessment_fields)
  have b: "(severity_level (calculate_overall_assessment thr r),
      recommendation (calculate_overall_assessment thr r)) =
       (if tot < real_of_int thr then (Some ''LOW'', Some (PStr ''APPROVE''))
        else if 5 \<le> tot then (Some ''CRITICAL'', Some (PStr ''ESCALATE''))
        else if 3.5 \<le> tot then (Some ''HIGH'', Some (PStr ''FLAG''))
        else (Some ''MEDIUM'', Some (PStr ''REVIEW'')))"
    by (simp add: calculate_scored [OF assms(1)] final_assessment_fields)
  have c: "(severity_level (calculate_overall_assessment thr r),
        recommendation (calculate_overall_assessment thr r)) =
         (if 5 \<le> tot then (Some ''CRITICAL'', Some (PStr ''ESCALATE''))
          else if 3.5 \<le> tot then (Some ''HIGH'', Some (PStr ''FLAG''))
          else if real_of_int thr \<le> tot then (Some ''MEDIUM'', Some (PStr ''REVIEW''))
          else (Some ''LOW'', Some (PStr ''APPROVE'')))" if "thr \<le> 3"
  proof -
    from that have "real_of_int thr \<le> 3" by simp
    then show ?thesis unfolding b by auto
  qed
  have d: "severity_rank (getd (severity_level (calculate_overall_assessment thr r)) ''LOW'')
         \<le> severity_rank (getd (severity_level (calculate_overall_assessment thr r')) ''LOW'')"
    if "tot \<le> tot'"
    using that
    unfolding calculate_scored [OF assms(1)] calculate_scored [OF assms(2)]
      final_assessment_fields getd_def option.case severity_rank_ladder
    by auto
  from a b c d show ?thesis by blast
qed

theorem severity_assignment_witness:
  "score_signals sentiment_only_reports =
     Inr (1.6, [Strong_negative 0.8], [''STRONG_NEGATIVE_SENTIMENT''])
   \<and> score_signals (comprehensive_profanity_analysis example_libs 1 ''you idiot'') =
       Inr (5.5, [ML_detected 1, Dictionary_flagged 1 (PList [PStr ''idiot''])],
            [''ML_PROFANITY'', ''DICTIONARY_PROFANITY''])
   \<and> should_flag (calculate_overall_assessment 1 sentiment_only_reports) = Some True
   \<and> severity_level (calculate_overall_assessment 1 sentiment_only_reports) = Some ''MEDIUM''
   \<and> recommendation (calculate_overall_assessment 1 sentiment_only_reports) = Some (PStr ''REVIEW'')
   \<and> severity_rank (getd (severity_level (calculate_overall_assessment 1 sentiment_only_reports)) ''LOW'')
       \<le> severity_rank (getd (severity_level (calculate_overall_assessment 1
             (comprehensive_profanity_analysis example_libs 1 ''you idiot''))) ''LOW'')"
proof -
  note w = severity_assignment [OF sentiment_only_scores example_scores [of 1], of 1]
  have le: "(1.6 :: real) \<le> 5.5" by simp
  from w have f: "should_flag (calculate_overall_assessment 1 sentiment_only_reports) = Some True"
    by simp
  from w have "(severity_level (calculate_overall_assessment 1 sentiment_only_reports),
      recommendation (calculate_overall_assessment 1 sentiment_only_reports)) =
       (Some ''MEDIUM'', Some (PStr ''REVIEW''))"
    by simp
  then have s: "severity_level (calculate_overall_assessment 1 sentiment_only_reports) = Some ''MEDIUM''"
    and r: "recommendation (calculate_overall_assessment 1 sentiment_only_reports) = Some (PStr ''REVIEW'')"
    by simp_all
  from w le have m: "severity_rank (getd (severity_level (calculate_overall_assessment 1 sentiment_only_reports)) ''LOW'')
       \<le> severity_rank (getd (severity_level (calculate_overall_assessment 1
             (comprehensive_profanity_analysis example_libs 1 ''you idiot''))) ''LOW'')"
    by blast
  from f s r m sentiment_only_scores example_scores [of 1] show ?thesis by blast
qed

text \<open>
  C4 as stated fails for a configured threshold above 5: with
  \<^verbatim>\<open>SEVERITY_THRESHOLD=6\<close> a total score of 5.5 is not flagged and stays
  \<^verbatim>\<open>LOW\<close>/\<^verbatim>\<open>APPROVE\<close>, not \<^verbatim>\<open>CRITICAL\<close>/\<^verbatim>\<open>ESCALATE\<close>.
\<close>

theorem severity_assignment_counterexample:
  "score_signals (comprehensive_profanity_analysis example_libs 6 ''you idiot'') =
     Inr (5.5, [ML_detected 1, Dictionary_flagged 1 (PList [PStr ''idiot''])],
          [''ML_PROFANITY'', ''DICTIONARY_PROFANITY''])
   \<and> (5 :: real) \<le> 5.5
   \<and> should_flag (overall_assessment
        (comprehensive_profanity_analysis example_libs 6 ''you idiot'')) = Some False
   \<and> severity_level (overall_assessment
        (comprehensive_profanity_analysis example_libs 6 ''you idiot'')) = Some ''LOW''
   \<and> severity_level (overall_assessment
        (comprehensive_profanity_analysis example_libs 6 ''you idiot'')) \<noteq> Some ''CRITICAL''
   \<and> recommendation (overall_assessment
        (comprehensive_profanity_analysis example_libs 6 ''you idiot'')) = Some (PStr ''APPROVE'')"
  by (simp add: comprehensive_overall calculate_scored [OF example_scores] example_scores
      final_assessment_fields)

subsection \<open>Decision merger\<close>

lemma severity_rank_bounds: "1 \<le> severity_rank s \<and> severity_rank s \<le> 4"
  by (simp add: severity_rank_def getd_def)

lemma combine_try_kept:
  assumes "(if getd (success S) False then ai_data S else None) = None"
  shows "combine_try A S =
           Inr (empty_dict
            \<lparr>should_flag := Some (getd (should_flag A) False),
             severity_level := Some (getd (severity_level A) ''LOW''),
             confidence := Some (getd (confidence_score A) 0.5),
             recommendation := Some (getd (recommendation A) (PStr ''APPROVE'')),
             primary_method := Some ''combined_analysis'',
             reasoning := Some (getd (primary_concerns A) []),
             detection_methods := Some (getd (flagged_by_methods A) [])\<rparr>)"
  using assms
  by (auto simp: combine_try_def Let_def split: option.splits if_splits)

lemma combine_kept_fields:
  assumes "(if getd (success S) False then ai_data S else None) = None"
  shows "severity_level (combine_library_and_ai_results A S) = Some (getd (severity_level A) ''LOW'')"
    "recommendation (combine_library_and_ai_results A S) =
       Some (getd (recommendation A) (PStr ''APPROVE''))"
    "confidence (combine_library_and_ai_results A S) = Some (getd (confidence_score A) 0.5)"
    "should_flag (combine_library_and_ai_results A S) = Some (getd (should_flag A) False)"
    "primary_method (combine_library_and_ai_results A S) = Some ''combined_analysis''"
    "error (combine_library_and_ai_results A S) = None"
  by (simp_all add: combine_library_and_ai_results_def combine_try_kept [OF assms] empty_dict_def)

lemma combine_try_success:
  assumes "getd (success S) False" and "ai_data S = Some ai"
  shows "combine_try A S =
     then_do (map_ai_urgency_to_severity (dget ai ''urgency'' (PStr ''LOW''))) (\<lambda>sev.
       if severity_rank sev > severity_rank (getd (severity_level A) ''LOW'')
       then then_do (as_num (dget ai ''confidence'' (PNum 0))) (\<lambda>c.
              Inr (empty_dict
                \<lparr>should_flag := Some (getd (should_flag A) False),
                 severity_level := Some sev,
                 confidence := Some (max (getd (confidence_score A) 0.5) c),
                 recommendation :=
                   Some (dget ai ''recommended_action'' (getd (recommendation A) (PStr ''APPROVE''))),
                 primary_method := Some ''combined_analysis'',
                 reasoning := Some (getd (primary_concerns A) []
                                    @ [Plain ''AI analysis enhanced severity assessment'']),
                 detection_methods := Some (getd (flagged_by_methods A) []),
                 ai_insights := Some
                   [(''toxicity_score'', dget ai ''toxicity_score'' (PNum 0)),
                    (''threat_level'', dget ai ''threat_level'' (PStr ''NONE'')),
                    (''content_issues'', dget ai ''content_issues'' (PList [])),
                    (''summary'', dget ai ''summary'' (PStr [])),
                    (''requires_human_review'',
                       dget ai ''requires_human_review'' (PBool False))]\<rparr>))
       else Inr (empty_dict
            \<lparr>should_flag := Some (getd (should_flag A) False),
             severity_level := Some (getd (severity_level A) ''LOW''),
             confidence := Some (getd (confidence_score A) 0.5),
             recommendation := Some (getd (recommendation A) (PStr ''APPROVE'')),
             primary_method := Some ''combined_analysis'',
             reasoning := Some (getd (primary_concerns A) []),
             detection_methods := Some (getd (flagged_by_methods A) [])\<rparr>))"
  using assms
  by (simp add: combine_try_def Let_def empty_dict_def then_do_def split: sum.splits)

text \<open>
  C1, as amended. For every assessment \<open>A\<close> and every result \<open>S\<close> of the analyzer, the
  severity rank of the merged decision is at least that of \<open>A\<close>. The merger overrides
  severity, recommendation and confidence with the judgment's values exactly when \<open>S\<close> is
  a success, the severity its urgency maps to ranks strictly above \<open>A\<close>'s, and the merge
  can read the judgment (an urgency that can be hashed, a confidence that is a number):
  the merged confidence is then the maximum of \<open>A\<close>'s and the judgment's (a key the
  judgment lacks falls back to \<open>A\<close>'s recommendation, to confidence 0, to urgency
  \<^verbatim>\<open>LOW\<close>). In every other case severity, recommendation and confidence are \<open>A\<close>'s: after
  a failed call, with a rank that is not higher, and when the judgment makes the merge
  raise, where the merger returns \<open>A\<close> itself.
\<close>

theorem merge_monotonic:
  "severity_rank (getd (severity_level (combine_library_and_ai_results A S)) ''LOW'')
     \<ge> severity_rank (getd (severity_level A) ''LOW'')
   \<and> (case (if getd (success S) False then ai_data S else None) of
        None \<Rightarrow>
          severity_level (combine_library_and_ai_results A S) = Some (getd (severity_level A) ''LOW'')
          \<and> recommendation (combine_library_and_ai_results A S) =
              Some (getd (recommendation A) (PStr ''APPROVE''))
          \<and> confidence (combine_library_and_ai_results A S) = Some (getd (confidence_score A) 0.5)
      | Some ai \<Rightarrow>
          (case map_ai_urgency_to_severity (dget ai ''urgency'' (PStr ''LOW'')) of
             Inl e \<Rightarrow> combine_library_and_ai_results A S = A
           | Inr sev \<Rightarrow>
               if severity_rank sev > severity_rank (getd (severity_level A) ''LOW'')
               then (case as_num (dget ai ''confidence'' (PNum 0)) of
                       Inl e \<Rightarrow> combine_library_and_ai_results A S = A
                     | Inr c \<Rightarrow>
                         severity_level (combine_library_and_ai_results A S) = Some sev
                         \<and> recommendation (combine_library_and_ai_results A S) =
                             Some (dget ai ''recommended_action''
                                     (getd (recommendation A) (PStr ''APPROVE'')))
                         \<and> confidence (combine_library_and_ai_results A S) =
                             Some (max (getd (confidence_score A) 0.5) c))
               else severity_level (combine_library_and_ai_results A S) =
                      Some (getd (severity_level A) ''LOW'')
                  \<and> recommendation (combine_library_and_ai_results A S) =
                      Some (getd (recommendation A) (PStr ''APPROVE''))
                  \<and> confidence (combine_library_and_ai_results A S) =
                      Some (getd (confidence_score A) 0.5)))"
proof (cases "if getd (success S) False then ai_data S else None")
  case None
  then show ?thesis
    by (simp add: combine_kept_fields [OF None] getd_def)
next
  case (Some ai)
  then have s: "getd (success S) False" and d: "ai_data S = Some ai"
    by (simp_all split: if_splits)
  show ?thesis
    unfolding Some option.case combine_library_and_ai_results_def combine_try_success [OF s d]
    by (auto simp: then_do_def empty_dict_def getd_def split: sum.splits)
qed


theorem merge_monotonic_witness:
  "severity_level (calculate_overall_assessment 3 sentiment_only_reports) = Some ''LOW''
   \<and> severity_rank ''HIGH'' > severity_rank ''LOW''
   \<and> severity_level (combine_library_and_ai_results
        (calculate_overall_assessment 3 sentiment_only_reports) example_ai_success) = Some ''HIGH''
   \<and> recommendation (combine_library_and_ai_results
        (calculate_overall_assessment 3 sentiment_only_reports) example_ai_success) =
         Some (PStr ''FLAG'')
   \<and> confidence (combine_library_and_ai_results
        (calculate_overall_assessment 3 sentiment_only_reports) example_ai_success) = Some 0.9
   \<and> severity_level (combine_library_and_ai_results
        (calculate_overall_assessment 3 sentiment_only_reports) example_ai_failure) = Some ''LOW''
   \<and> recommendation (combine_library_and_ai_results
        (calculate_overall_assessment 3 sentiment_only_reports) example_ai_failure) =
         Some (PStr ''APPROVE'')
   \<and> confidence (combine_library_and_ai_results
        (calculate_overall_assessment 3 sentiment_only_reports) example_ai_failure) = Some (4 / 15)"
proof -
  let ?A = "calculate_overall_assessment 3 sentiment_only_reports"
  have A: "severity_level ?A = Some ''LOW''" "recommendation ?A = Some (PStr ''APPROVE'')"
    "confidence_score ?A = Some (4 / 15)"
    by (simp_all add: calculate_scored [OF sentiment_only_scores] final_assessment_fields)
  have u: "map_ai_urgency_to_severity (PStr ''HIGH'') = Inr ''HIGH''"
    by (simp add: map_ai_urgency_to_severity_def getd_def)
  from merge_monotonic [of ?A example_ai_success]
  have s: "severity_level (combine_library_and_ai_results ?A example_ai_success) = Some ''HIGH''
     \<and> recommendation (combine_library_and_ai_results ?A example_ai_success) = Some (PStr ''FLAG'')
     \<and> confidence (combine_library_and_ai_results ?A example_ai_success) = Some 0.9"
    by (simp add: A u example_ai_success_def example_judgment_def getd_def dget_def
        severity_rank_simps)
  from merge_monotonic [of ?A example_ai_failure]
  have f: "severity_level (combine_library_and_ai_results ?A example_ai_failure) = Some ''LOW''
     \<and> recommendation (combine_library_and_ai_results ?A example_ai_failure) =
         Some (PStr ''APPROVE'')
     \<and> confidence (combine_library_and_ai_results ?A example_ai_failure) = Some (4 / 15)"
    by (simp add: A example_ai_failure_def getd_def)
  from s f A show ?thesis by (simp add: severity_rank_simps)
qed

text \<open>
  C1 as stated fails on a judgment whose urgency is \<^verbatim>\<open>CRITICAL\<close> and whose confidence is
  the word \<^verbatim>\<open>high\<close>: the urgency ranks strictly above the assessment's \<^verbatim>\<open>LOW\<close>, \<^verbatim>\<open>max\<close>
  raises, and the merger returns the assessment without overriding.
\<close>

theorem merge_monotonic_counterexample:
  "severity_level (calculate_overall_assessment 3 sentiment_only_reports) = Some ''LOW''
   \<and> success ill_typed_ai_success = Some True
   \<and> map_ai_urgency_to_severity
        (dget [(''urgency'', PStr ''CRITICAL''), (''recommended_action'', PStr ''ESCALATE''),
               (''confidence'', PStr ''high'')] ''urgency'' (PStr ''LOW'')) = Inr ''CRITICAL''
   \<and> severity_rank ''CRITICAL'' > severity_rank ''LOW''
   \<and> combine_library_and_ai_results
         (calculate_overall_assessment 3 sentiment_only_reports) ill_typed_ai_success =
       calculate_overall_assessment 3 sentiment_only_reports
   \<and> severity_level (combine_library_and_ai_results
         (calculate_overall_assessment 3 sentiment_only_reports) ill_typed_ai_success) = Some ''LOW''
   \<and> severity_level (combine_library_and_ai_results
         (calculate_overall_assessment 3 sentiment_only_reports) ill_typed_ai_success)
       \<noteq> Some ''CRITICAL''"
proof -
  let ?A = "calculate_overall_assessment 3 sentiment_only_reports"
  have A: "severity_level ?A = Some ''LOW''"
    by (simp add: calculate_scored [OF sentiment_only_scores] final_assessment_fields)
  have u: "map_ai_urgency_to_severity
        (dget [(''urgency'', PStr ''CRITICAL''), (''recommended_action'', PStr ''ESCALATE''),
               (''confidence'', PStr ''high'')] ''urgency'' (PStr ''LOW'')) = Inr ''CRITICAL''"
    by (simp add: map_ai_urgency_to_severity_def getd_def dget_def)
  have s: "getd (success ill_typed_ai_success) False"
    and d: "ai_data ill_typed_ai_success =
              Some [(''urgency'', PStr ''CRITICAL''), (''recommended_action'', PStr ''ESCALATE''),
                    (''confidence'', PStr ''high'')]"
    by (simp_all add: ill_typed_ai_success_def getd_def)
  have c: "combine_library_and_ai_results ?A ill_typed_ai_success = ?A"
    unfolding combine_library_and_ai_results_def combine_try_success [OF s d] u
    by (simp add: then_do_def A getd_def dget_def severity_rank_simps)
  from A u c show ?thesis
    by (simp add: ill_typed_ai_success_def severity_rank_simps)
qed

subsection \<open>Enhanced analysis\<close>

lemma requires_implies_scored:
  assumes "requires_ai_analysis (calculate_overall_assessment thr r) = Some True"
  shows "\<exists>tot cs ms. score_signals r = Inr (tot, cs, ms)"
proof (cases "score_signals r")
  case (Inl e)
  with assms show ?thesis by (simp add: calculate_overall_assessment_def empty_dict_def)
next
  case (Inr v)
  then show ?thesis by (cases v) simp
qed

lemma enhanced_escalated:
  assumes "requires_ai_analysis (overall_assessment (comprehensive_profanity_analysis l thr tx)) = Some True"
  shows "final_decision (enhanced_analysis l sv thr tx ctx) =
           combine_library_and_ai_results
             (overall_assessment (comprehensive_profanity_analysis l thr tx))
             (analyze_with_bedrock sv tx ctx)"
    and "ai_analysis (enhanced_analysis l sv thr tx ctx) = analyze_with_bedrock sv tx ctx"
    and "failure (enhanced_analysis l sv thr tx ctx) = None"
  using assms by (simp_all add: enhanced_analysis_def Let_def getd_def)

text \<open>
  C2, as amended. When the assessment of a text asks for the secondary analysis and the
  analyzer's call fails, \<^verbatim>\<open>enhanced_analysis\<close> returns without an error a final decision
  whose \<^verbatim>\<open>should_flag\<close>, severity, confidence and recommendation are those of the
  assessment, and whose \<^verbatim>\<open>primary_method\<close> is \<^verbatim>\<open>combined_analysis\<close>: the tag
  \<^verbatim>\<open>_combine_library_and_ai_results\<close> gives every decision it builds.
\<close>

theorem escalation_failure_keeps_assessment:
  assumes "requires_ai_analysis (overall_assessment (comprehensive_profanity_analysis l thr tx)) = Some True"
    and "\<not> getd (success (analyze_with_bedrock sv tx ctx)) False"
  shows "should_flag (final_decision (enhanced_analysis l sv thr tx ctx)) =
           should_flag (overall_assessment (comprehensive_profanity_analysis l thr tx))
       \<and> severity_level (final_decision (enhanced_analysis l sv thr tx ctx)) =
           severity_level (overall_assessment (comprehensive_profanity_analysis l thr tx))
       \<and> confidence (final_decision (enhanced_analysis l sv thr tx ctx)) =
           confidence_score (overall_assessment (comprehensive_profanity_analysis l thr tx))
       \<and> recommendation (final_decision (enhanced_analysis l sv thr tx ctx)) =
           recommendation (overall_assessment (comprehensive_profanity_analysis l thr tx))
       \<and> primary_method (final_decision (enhanced_analysis l sv thr tx ctx)) =
           Some ''combined_analysis''
       \<and> error (final_decision (enhanced_analysis l sv thr tx ctx)) = None
       \<and> failure (enhanced_analysis l sv thr tx ctx) = None"
proof -
  let ?A = "overall_assessment (comprehensive_profanity_analysis l thr tx)"
  from assms(1) obtain tot cs ms where
    s: "score_signals (comprehensive_profanity_analysis l thr tx) = Inr (tot, cs, ms)"
    using requires_implies_scored [of thr "comprehensive_profanity_analysis l thr tx"]
    by (auto simp: comprehensive_overall)
  have A: "?A = final_assessment thr (comprehensive_profanity_analysis l thr tx) (tot, cs, ms)"
    by (simp add: comprehensive_overall calculate_scored [OF s])
  have k: "(if getd (success (analyze_with_bedrock sv tx ctx)) False
            then ai_data (analyze_with_bedrock sv tx ctx) else None) = None"
    using assms(2) by simp
  show ?thesis
    unfolding enhanced_escalated [OF assms(1)] combine_kept_fields [OF k]
    by (simp add: A final_assessment_fields getd_def)
qed

theorem escalation_failure_witness:
  "requires_ai_analysis (overall_assessment
      (comprehensive_profanity_analysis example_libs 3 ''you idiot'')) = Some True
   \<and> \<not> getd (success (analyze_with_bedrock timeout_services ''you idiot''
                        (get_user_context timeout_services ''u1''))) False
   \<and> should_flag (final_decision (enhanced_analysis example_libs timeout_services 3 ''you idiot''
        (get_user_context timeout_services ''u1''))) = Some True
   \<and> severity_level (final_decision (enhanced_analysis example_libs timeout_services 3 ''you idiot''
        (get_user_context timeout_services ''u1''))) = Some ''CRITICAL''
   \<and> confidence (final_decision (enhanced_analysis example_libs timeout_services 3 ''you idiot''
        (get_user_context timeout_services ''u1''))) = Some (11 / 12)
   \<and> recommendation (final_decision (enhanced_analysis example_libs timeout_services 3 ''you idiot''
        (get_user_context timeout_services ''u1''))) = Some (PStr ''ESCALATE'')
   \<and> primary_method (final_decision (enhanced_analysis example_libs timeout_services 3 ''you idiot''
        (get_user_context timeout_services ''u1''))) = Some ''combined_analysis''"
proof -
  let ?A = "overall_assessment (comprehensive_profanity_analysis example_libs 3 ''you idiot'')"
  have A: "?A = final_assessment 3 (comprehensive_profanity_analysis example_libs 3 ''you idiot'')
                  (5.5, [ML_detected 1, Dictionary_flagged 1 (PList [PStr ''idiot''])],
                   [''ML_PROFANITY'', ''DICTIONARY_PROFANITY''])"
    by (simp add: comprehensive_overall calculate_scored [OF example_scores])
  have r: "requires_ai_analysis ?A = Some True"
    unfolding A final_assessment_requires should_use_ai_analysis_iff
    by (simp add: final_assessment_fields getd_def)
  have f: "\<not> getd (success (analyze_with_bedrock timeout_services ''you idiot''
                        (get_user_context timeout_services ''u1''))) False"
    by (simp add: timeout_services_def example_services_def example_ai_failure_def getd_def)
  have v: "should_flag ?A = Some True" "severity_level ?A = Some ''CRITICAL''"
    "confidence_score ?A = Some (11 / 12)" "recommendation ?A = Some (PStr ''ESCALATE'')"
    unfolding A by (simp_all add: final_assessment_fields)
  from escalation_failure_keeps_assessment [OF r f] r f v show ?thesis by simp
qed

text \<open>
  C2 as stated fails on its tag: after a timed-out call the decision is tagged
  \<^verbatim>\<open>combined_analysis\<close>, not \<^verbatim>\<open>libraries_only\<close>.
\<close>

theorem escalation_failure_counterexample:
  "requires_ai_analysis (overall_assessment
      (comprehensive_profanity_analysis example_libs 3 ''you idiot'')) = Some True
   \<and> success (analyze_with_bedrock timeout_services ''you idiot''
               (get_user_context timeout_services ''u1'')) = Some False
   \<and> primary_method (final_decision (enhanced_analysis example_libs timeout_services 3 ''you idiot''
        (get_user_context timeout_services ''u1''))) = Some ''combined_analysis''
   \<and> primary_method (final_decision (enhanced_analysis example_libs timeout_services 3 ''you idiot''
        (get_user_context timeout_services ''u1''))) \<noteq> Some ''libraries_only''"
proof -
  let ?A = "overall_assessment (comprehensive_profanity_analysis example_libs 3 ''you idiot'')"
  have A: "?A = final_assessment 3 (comprehensive_profanity_analysis example_libs 3 ''you idiot'')
                  (5.5, [ML_detected 1, Dictionary_flagged 1 (PList [PStr ''idiot''])],
                   [''ML_PROFANITY'', ''DICTIONARY_PROFANITY''])"
    by (simp add: comprehensive_overall calculate_scored [OF example_scores])
  have r: "requires_ai_analysis ?A = Some True"
    unfolding A final_assessment_requires should_use_ai_analysis_iff
    by (simp add: final_assessment_fields getd_def)
  have f: "success (analyze_with_bedrock timeout_services ''you idiot''
                        (get_user_context timeout_services ''u1'')) = Some False"
    by (simp add: timeout_services_def example_services_def example_ai_failure_def)
  have k: "(if getd (success (analyze_with_bedrock timeout_services ''you idiot''
                        (get_user_context timeout_services ''u1''))) False
            then ai_data (analyze_with_bedrock timeout_services ''you idiot''
                        (get_user_context timeout_services ''u1'')) else None) = None"
    by (simp add: f getd_def)
  have p: "primary_method (final_decision (enhanced_analysis example_libs timeout_services 3
             ''you idiot'' (get_user_context timeout_services ''u1''))) = Some ''combined_analysis''"
    unfolding enhanced_escalated [OF r] combine_kept_fields [OF k] ..
  from r f p show ?thesis by simp
qed

subsection \<open>Complaint text extraction\<close>

lemma strip_Nil: "strip [] = []"
  by (simp add: strip_def)

lemma converter_nonempty: "xml_to_json_converter sv x = Some j \<Longrightarrow> j \<noteq> []"
  by (auto simp: xml_to_json_converter_def split: option.splits if_splits)

lemma converter_fails_iff:
  "(xml_to_json_converter sv x = None) =
     (case x of None \<Rightarrow> True | Some xml \<Rightarrow> strip xml = [] \<or> ET_fromstring sv xml = None)"
  by (auto simp: xml_to_json_converter_def strip_Nil split: option.splits)

lemma process_without_json:
  assumes "xml_to_json_converter sv (complaint_xml r) = None"
  shows "process_complaint_from_db sv r = None"
  using assms by (simp add: process_complaint_from_db_def process_complaint_try_def)

lemma process_with_json:
  assumes "xml_to_json_converter sv (complaint_xml r) = Some j"
  shows "process_complaint_from_db sv r =
           (if length (strip (extract_complaint_text j)) < 5 then None
            else if truthy (created_at r)
            then (case isoformat (created_at r) of
                    Inl e \<Rightarrow> None
                  | Inr ts \<Rightarrow>
                      Some \<lparr>db_id = rec_id r, cd_user_id = user_id r, timestamp = Some ts,
                            cd_category = category r, cd_priority = priority r,
                            complaint_text = extract_complaint_text j,
                            original_json = j, cd_db_record = r\<rparr>)
            else Some \<lparr>db_id = rec_id r, cd_user_id = user_id r, timestamp = None,
                       cd_category = category r, cd_priority = priority r,
                       complaint_text = extract_complaint_text j,
                       original_json = j, cd_db_record = r\<rparr>)"
  using assms converter_nonempty [OF assms]
  by (auto simp: process_complaint_from_db_def process_complaint_try_def Let_def strip_Nil
      then_do_def split: sum.splits)

lemma process_none_iff:
  "(process_complaint_from_db sv r = None) =
     (xml_to_json_converter sv (complaint_xml r) = None
      \<or> (\<exists>j. xml_to_json_converter sv (complaint_xml r) = Some j
              \<and> length (strip (extract_complaint_text j)) < 5)
      \<or> (truthy (created_at r) \<and> (\<exists>e. isoformat (created_at r) = Inl e)))"
proof (cases "xml_to_json_converter sv (complaint_xml r)")
  case None
  then show ?thesis by (simp add: process_without_json)
next
  case (Some j)
  then show ?thesis
    by (auto simp: process_with_json [OF Some] split: sum.splits)
qed

text \<open>
  C10, as amended. \<^verbatim>\<open>process_complaint_from_db\<close> returns \<^verbatim>\<open>None\<close> exactly when the XML
  conversion fails (no document, a blank one, or one the parser refuses), or the
  extracted complaint text, stripped of whitespace, has fewer than 5 characters, or the
  row's \<^verbatim>\<open>created_at\<close> is a true value without \<^verbatim>\<open>isoformat\<close>, so that building the
  processed record raises and the \<^verbatim>\<open>except\<close> clause answers \<^verbatim>\<open>None\<close>. A record it does
  process carries the extracted text of its document, of at least 5 characters.
\<close>

theorem unprocessable_iff:
  "(process_complaint_from_db sv r = None) =
     (xml_to_json_converter sv (complaint_xml r) = None
      \<or> (\<exists>j. xml_to_json_converter sv (complaint_xml r) = Some j
              \<and> length (strip (extract_complaint_text j)) < 5)
      \<or> (truthy (created_at r) \<and> (\<exists>e. isoformat (created_at r) = Inl e)))
   \<and> (xml_to_json_converter sv (complaint_xml r) = None) =
       (case complaint_xml r of
          None \<Rightarrow> True
        | Some xml \<Rightarrow> strip xml = [] \<or> ET_fromstring sv xml = None)
   \<and> (case process_complaint_from_db sv r of
        None \<Rightarrow> True
      | Some cd \<Rightarrow>
          xml_to_json_converter sv (complaint_xml r) = Some (original_json cd)
          \<and> complaint_text cd = extract_complaint_text (original_json cd)
          \<and> 5 \<le> length (strip (complaint_text cd)))"
proof (cases "xml_to_json_converter sv (complaint_xml r)")
  case None
  then show ?thesis
    using converter_fails_iff [of sv "complaint_xml r"] process_none_iff [of sv r]
    by (simp add: process_without_json)
next
  case (Some j)
  have "case process_complaint_from_db sv r of
        None \<Rightarrow> True
      | Some cd \<Rightarrow>
          xml_to_json_converter sv (complaint_xml r) = Some (original_json cd)
          \<and> complaint_text cd = extract_complaint_text (original_json cd)
          \<and> 5 \<le> length (strip (complaint_text cd))"
    by (simp add: process_with_json [OF Some] Some split: sum.splits)
  then show ?thesis
    using converter_fails_iff [of sv "complaint_xml r"] process_none_iff [of sv r]
    by blast
qed

lemma example_json:
  "xml_to_json_converter example_services
     (Some ''<c><complaint_text> you idiot </complaint_text></c>'') =
     Some [(''complaint_text'', PStr ''you idiot''),
           (''user_details'', PDict [(''name'', PStr []), (''email'', PStr [])]),
           (''complaint_details'',
              PDict [(''subject'', PStr []), (''description'', PStr []),
                     (''priority'', PStr ''normal''), (''category'', PStr ''general'')])]"
  by (simp add: xml_to_json_converter_def example_services_def safe_xml_extract_def or_str_def
      strip_def isspace_def)

lemma example_text:
  "extract_complaint_text
     [(''complaint_text'', PStr ''you idiot''),
      (''user_details'', PDict [(''name'', PStr []), (''email'', PStr [])]),
      (''complaint_details'',
         PDict [(''subject'', PStr []), (''description'', PStr []),
                (''priority'', PStr ''normal''), (''category'', PStr ''general'')])] = ''you idiot''"
  "strip ''you idiot'' = ''you idiot''"
  by (simp_all add: extract_complaint_text_def text_paths_def dget_def strip_def isspace_def)

lemma example_record_processed:
  "process_complaint_from_db example_services example_record =
     Some \<lparr>db_id = 1, cd_user_id = ''u1'', timestamp = Some ''2024-05-01T10:00:00'',
           cd_category = None, cd_priority = Some ''high'', complaint_text = ''you idiot'',
           original_json =
             [(''complaint_text'', PStr ''you idiot''),
              (''user_details'', PDict [(''name'', PStr []), (''email'', PStr [])]),
              (''complaint_details'',
                 PDict [(''subject'', PStr []), (''description'', PStr []),
                        (''priority'', PStr ''normal''), (''category'', PStr ''general'')])],
           cd_db_record = example_record\<rparr>"
proof -
  have j: "xml_to_json_converter example_services (complaint_xml example_record) =
     Some [(''complaint_text'', PStr ''you idiot''),
           (''user_details'', PDict [(''name'', PStr []), (''email'', PStr [])]),
           (''complaint_details'',
              PDict [(''subject'', PStr []), (''description'', PStr []),
                     (''priority'', PStr ''normal''), (''category'', PStr ''general'')])]"
    using example_json by (simp add: example_record_def)
  show ?thesis
    unfolding process_with_json [OF j] example_text
    by (simp add: example_record_def)
qed

lemma short_record_unprocessable:
  "xml_to_json_converter example_services (complaint_xml short_record) =
     Some [(''complaint_text'', PStr ''hey''),
           (''user_details'', PDict [(''name'', PStr []), (''email'', PStr [])]),
           (''complaint_details'',
              PDict [(''subject'', PStr []), (''description'', PStr []),
                     (''priority'', PStr ''normal''), (''category'', PStr ''general'')])]"
  "process_complaint_from_db example_services short_record = None"
  by (simp_all add: process_complaint_from_db_def process_complaint_try_def
      xml_to_json_converter_def example_services_def
      short_record_def safe_xml_extract_def or_str_def strip_def isspace_def
      extract_complaint_text_def text_paths_def dget_def getd_def Let_def)

lemma zero_date_record_unprocessable:
  "xml_to_json_converter example_services (complaint_xml zero_date_record) =
     Some [(''complaint_text'', PStr ''you idiot''),
           (''user_details'', PDict [(''name'', PStr []), (''email'', PStr [])]),
           (''complaint_details'',
              PDict [(''subject'', PStr []), (''description'', PStr []),
                     (''priority'', PStr ''normal''), (''category'', PStr ''general'')])]"
  "process_complaint_from_db example_services zero_date_record = None"
proof -
  show j: "xml_to_json_converter example_services (complaint_xml zero_date_record) =
     Some [(''complaint_text'', PStr ''you idiot''),
           (''user_details'', PDict [(''name'', PStr []), (''email'', PStr [])]),
           (''complaint_details'',
              PDict [(''subject'', PStr []), (''description'', PStr []),
                     (''priority'', PStr ''normal''), (''category'', PStr ''general'')])]"
    using example_json by (simp add: zero_date_record_def)
  show "process_complaint_from_db example_services zero_date_record = None"
    unfolding process_with_json [OF j] example_text
    by (simp add: zero_date_record_def)
qed

theorem unprocessable_iff_witness:
  "process_complaint_from_db example_services short_record = None
   \<and> xml_to_json_converter example_services (complaint_xml short_record) \<noteq> None
   \<and> length (strip ''hey'') < 5
   \<and> process_complaint_from_db example_services example_record \<noteq> None
   \<and> (case process_complaint_from_db example_services example_record of
        None \<Rightarrow> False
      | Some cd \<Rightarrow> complaint_text cd = ''you idiot'' \<and> 5 \<le> length (strip (complaint_text cd)))"
  using unprocessable_iff [of example_services example_record]
    unprocessable_iff [of example_services short_record]
  by (simp add: example_record_processed short_record_unprocessable strip_def isspace_def)

text \<open>
  C10 as stated fails on a row whose \<^verbatim>\<open>created_at\<close> the driver hands over as the text of
  a zero date: the XML converts, the extracted text has 9 characters, and the result is
  \<^verbatim>\<open>None\<close>.
\<close>

theorem unprocessable_iff_counterexample:
  "xml_to_json_converter example_services (complaint_xml zero_date_record) =
     Some [(''complaint_text'', PStr ''you idiot''),
           (''user_details'', PDict [(''name'', PStr []), (''email'', PStr [])]),
           (''complaint_details'',
              PDict [(''subject'', PStr []), (''description'', PStr []),
                     (''priority'', PStr ''normal''), (''category'', PStr ''general'')])]
   \<and> extract_complaint_text
        [(''complaint_text'', PStr ''you idiot''),
         (''user_details'', PDict [(''name'', PStr []), (''email'', PStr [])]),
         (''complaint_details'',
            PDict [(''subject'', PStr []), (''description'', PStr []),
                   (''priority'', PStr ''normal''), (''category'', PStr ''general'')])] =
       ''you idiot''
   \<and> length (strip ''you idiot'') = 9
   \<and> process_complaint_from_db example_services zero_date_record = None"
  by (simp add: zero_date_record_unprocessable example_text)

subsection \<open>Batch orchestrator\<close>







lemma record_after_raise:
  assumes "lambda_handler_try l sv thr force r st = (Some e, st1)"
  shows "lambda_handler_record l sv thr force r st =
           (if update_raises sv (update_calls st1) = None
            then st1\<lparr>error_count := error_count st1 + 1,
                     update_calls := Suc (update_calls st1),
                     updates := (rec_id r, ''retry'',
                                 Retry_payload (Str e) (getd (retry_count r) 0 + 1), ''LOW'')
                                # updates st1\<rparr>
            else st1\<lparr>error_count := error_count st1 + 1,
                     update_calls := Suc (update_calls st1)\<rparr>)"
  using assms
  by (cases "update_raises sv (update_calls st1)")
     (simp_all add: lambda_handler_record_def update_moderation_status_def Let_def)










subsection \<open>Forced secondary mode\<close>

text \<open>
  What the body of the unreachable \<^verbatim>\<open>_ai_to_final_decision\<close> would compute.
\<close>

lemma ai_to_final_decision_as_written:
  "getd (success S) False \<Longrightarrow>
     map_ai_urgency_to_severity (dget (getd (ai_data S) []) ''urgency'' (PStr ''LOW'')) = Inr sev \<Longrightarrow>
     \<exists>d. ai_to_final_decision S = Inr d
       \<and> dget d ''primary_method'' PNone = PStr ''ai_only''
       \<and> dget d ''should_flag'' PNone =
           PBool (dget (getd (ai_data S) []) ''recommended_action'' (PStr ''APPROVE'')
                    \<in> {PStr ''FLAG'', PStr ''ESCALATE'', PStr ''REVIEW''})"
  "\<not> getd (success S) False \<Longrightarrow>
     \<exists>d. ai_to_final_decision S = Inr d
       \<and> dget d ''primary_method'' PNone = PStr ''ai_error_fallback''
       \<and> dget d ''should_flag'' PNone = PBool True
       \<and> dget d ''severity_level'' PNone = PStr ''HIGH''
       \<and> dget d ''recommendation'' PNone = PStr ''REVIEW''"
  by (auto simp: ai_to_final_decision_def Let_def then_do_def dget_def)

text \<open>
  C3. With \<^verbatim>\<open>force_ai_analysis\<close> set, every record with usable text makes the \<^verbatim>\<open>try\<close>
  block raise \<^verbatim>\<open>AttributeError\<close> at \<^verbatim>\<open>moderation_service._ai_to_final_decision\<close>, after
  the analyzer was called and whatever it answered: no final decision is built or
  written, the record is not counted as processed or as analyzed, and the only row
  the iteration can write is the \<^verbatim>\<open>retry\<close> row with that error.
\<close>

theorem forced_mode_raises:
  assumes "process_complaint_from_db sv r = Some cd"
  shows "lambda_handler_try l sv thr True r st =
           (Some (AttributeError ''_ai_to_final_decision''), st)
       \<and> updates (lambda_handler_record l sv thr True r st) =
           (if update_raises sv (update_calls st) = None
            then [(rec_id r, ''retry'',
                   Retry_payload (Str (AttributeError ''_ai_to_final_decision''))
                     (getd (retry_count r) 0 + 1), ''LOW'')]
            else []) @ updates st
       \<and> processed_count (lambda_handler_record l sv thr True r st) = processed_count st
       \<and> ai_used_count (lambda_handler_record l sv thr True r st) = ai_used_count st
       \<and> error_count (lambda_handler_record l sv thr True r st) = error_count st + 1"
proof -
  have t: "lambda_handler_try l sv thr True r st =
           (Some (AttributeError ''_ai_to_final_decision''), st)"
    using assms by (simp add: lambda_handler_try_def Let_def)
  show ?thesis
    unfolding record_after_raise [OF t] by (simp add: t)
qed

theorem forced_mode_raises_witness:
  "process_complaint_from_db example_services example_record \<noteq> None
   \<and> success (analyze_with_bedrock example_services ''you idiot''
               (get_user_context example_services ''u1'')) = Some True
   \<and> fst (lambda_handler_try example_libs example_services 3 True example_record initial_state) =
       Some (AttributeError ''_ai_to_final_decision'')
   \<and> updates (lambda_handler_record example_libs example_services 3 True example_record
                initial_state) =
       [(1, ''retry'', Retry_payload (Str (AttributeError ''_ai_to_final_decision'')) 1, ''LOW'')]
   \<and> processed_count (lambda_handler_record example_libs example_services 3 True example_record
                        initial_state) = 0
   \<and> ai_used_count (lambda_handler_record example_libs example_services 3 True example_record
                      initial_state) = 0"
proof -
  note w = forced_mode_raises [OF example_record_processed, of example_libs 3 initial_state]
  have a: "process_complaint_from_db example_services example_record \<noteq> None"
    by (simp add: example_record_processed)
  have b: "success (analyze_with_bedrock example_services ''you idiot''
               (get_user_context example_services ''u1'')) = Some True"
    by (simp add: example_services_def example_ai_success_def)
  from w have c: "fst (lambda_handler_try example_libs example_services 3 True example_record
                         initial_state) = Some (AttributeError ''_ai_to_final_decision'')"
    by simp
  have u: "update_raises example_services (update_calls initial_state) = None"
    by (simp add: example_services_def)
  from w u have d: "updates (lambda_handler_record example_libs example_services 3 True
                      example_record initial_state) =
       [(1, ''retry'', Retry_payload (Str (AttributeError ''_ai_to_final_decision'')) 1, ''LOW'')]"
    by (simp add: initial_state_def example_record_def getd_def)
  from w have e: "processed_count (lambda_handler_record example_libs example_services 3 True
                      example_record initial_state) = 0"
    "ai_used_count (lambda_handler_record example_libs example_services 3 True
                      example_record initial_state) = 0"
    by (simp_all add: initial_state_def)
  from a b c d e show ?thesis by blast
qed

end
